theory Spec2Isabelle
  imports Complex_Main
begin

section \<open>Values, exceptions and observable effects\<close>

text \<open>
  The program is \<^verbatim>\<open>email_sender_bot.py\<close>: the class \<^verbatim>\<open>EmailSenderBot\<close>.
  Strings are byte sequences (UTF-8), Python's \<^verbatim>\<open>str | None\<close> is
  \<^typ>\<open>string option\<close>, Python's unbounded \<^verbatim>\<open>int\<close> is \<^typ>\<open>int\<close>.

  Exceptions are values. The constructors are the classes the code raises or catches by
  name, \<^verbatim>\<open>SMTPAuthenticationError\<close> (what \<^verbatim>\<open>server.login\<close> raises when the
  server rejects the credentials; a subclass of neither refusal), and \<open>OtherError\<close>
  for every other subclass of \<^verbatim>\<open>Exception\<close> (a timeout, a disconnect, a decoding
  error, ...).
\<close>

datatype exn =
    KeyError string
  | IndexError
  | ValueError
  | ZeroDivisionError
  | FileNotFoundError
  | SMTPRecipientsRefused
  | SMTPSenderRefused
  | SMTPAuthenticationError
  | OtherError string

text \<open>
  One row of \<^verbatim>\<open>csv.DictReader\<close>: the named columns, each a string or
  \<^verbatim>\<open>None\<close> (a row shorter than the header is padded with \<^verbatim>\<open>None\<close>), and the
  surplus values of a row longer than the header, which the reader stores as a list
  under the key \<^verbatim>\<open>None\<close>.
\<close>

record row =
  columns :: "string \<rightharpoonup> string option"
  surplus :: "string list option"

text \<open>
  The MIME message built for one recipient: the three headers, the text body and the
  attached files (file name and payload).
\<close>

record message =
  msg_from :: "string option"
  msg_to :: "string option"
  msg_subject :: string
  msg_body :: string
  msg_parts :: "(string \<times> string) list"

text \<open>
  The fields of the bot object (\<^verbatim>\<open>__init__\<close>, \<^verbatim>\<open>authenticate\<close>).
\<close>

record bot =
  smtp_server :: string
  smtp_port :: int
  sender_email :: "string option"
  password :: "string option"

text \<open>
  Every effect of the program is an event appended to a trace, in program order. A log
  record is its level and its call site with the interpolated values (the text of the
  message is fixed by the call site); \<open>Sleep\<close> is a completed \<^verbatim>\<open>time.sleep\<close>;
  \<open>SmtpAttempt\<close> is one execution of the \<^verbatim>\<open>with smtplib.SMTP(...)\<close> block
  (connect, starttls, login, send\_message, quit).
  Writing to standard output and to the log is taken to succeed: a console that cannot
  encode a character, or a closed pipe, is not modelled.
\<close>

datatype level = INFO | WARNING | ERROR

datatype logmsg =
    RowMissingEmail nat
  | RowInvalidEmail nat "string option"
  | LoadedRecipient "string option"
  | LoadedAll nat string
  | CsvNotFound string
  | CsvReadError exn
  | AttachmentNotFound string
  | CreateMessageError "string option" exn
  | Attached string
  | AttachFailed string exn
  | SentOk "string option"
  | RecipientRefused "string option"
  | SenderRefused
  | RetryIn nat int "string option" nat exn
  | GaveUp "string option" int exn
  | ReportSaved string
  | ReportSaveFailed exn

datatype event =
    Log level logmsg
  | Print string
  | Sleep rat
  | SmtpAttempt message
  | FileWritten string string

text \<open>
  The environment: what the program cannot decide itself. The outcome of an SMTP
  session may depend on the bot's settings, on everything that happened before (the
  trace) and on the message: \<open>None\<close> is a session that raised nothing. A file is
  absent (\<open>None\<close>), or reading it raises or yields its bytes. Opening and iterating a
  CSV file raises at once, or yields rows and then ends normally or with an exception.
  \<open>format_ext\<close> is \<^verbatim>\<open>str.format\<close> on a template that starts with a replacement
  field using a conversion, a format specification, an attribute or an index
  (\<^verbatim>\<open>{x!r}\<close>, \<^verbatim>\<open>{x:>5}\<close>, \<^verbatim>\<open>{x.y}\<close>, \<^verbatim>\<open>{x[0]}\<close>);
  \<open>float_round\<close> is binary64 rounding to nearest; \<open>report_open\<close> is the outcome of
  opening and writing the report file.
\<close>

record env =
  smtp_session :: "bot \<Rightarrow> event list \<Rightarrow> message \<Rightarrow> exn option"
  file_read :: "string \<rightharpoonup> exn + string"
  csv_rows :: "string \<Rightarrow> exn + row list \<times> exn option"
  format_ext :: "string \<Rightarrow> row \<Rightarrow> exn + string"
  float_round :: "rat \<Rightarrow> rat"
  report_open :: "string \<Rightarrow> exn option"

text \<open>
  \<^verbatim>\<open>time.sleep(secs)\<close> raises \<^verbatim>\<open>ValueError\<close> on a negative length and
  otherwise returns after the pause. (The interpreter's upper limit on the length of one
  sleep, about 292 years, is not modelled.)
\<close>

definition time_sleep :: "rat \<Rightarrow> event list \<Rightarrow> (exn + unit) \<times> event list" where
  "time_sleep secs t = (if secs < 0 then (Inl ValueError, t) else (Inr (), t @ [Sleep secs]))"

section \<open>Formatting and small string functions\<close>

text \<open>
  \<^verbatim>\<open>str(v)\<close> of a string or \<^verbatim>\<open>None\<close>, as an f-string or a replacement field
  with no format specification prints it.
\<close>

definition py_str :: "string option \<Rightarrow> string" where
  "py_str v = (case v of None \<Rightarrow> ''None'' | Some s \<Rightarrow> s)"

text \<open>\<^verbatim>\<open>recipient.get(key)\<close> and \<^verbatim>\<open>recipient.get(key, default)\<close>.\<close>

definition row_get :: "row \<Rightarrow> string \<Rightarrow> string option" where
  "row_get r k = (case columns r k of None \<Rightarrow> None | Some v \<Rightarrow> v)"

definition row_get_default :: "row \<Rightarrow> string \<Rightarrow> string \<Rightarrow> string option" where
  "row_get_default r k d = (case columns r k of None \<Rightarrow> Some d | Some v \<Rightarrow> v)"

text \<open>Decimal digits of a natural number and of an integer (\<^verbatim>\<open>str(n)\<close>).\<close>

definition digit_char :: "nat \<Rightarrow> char" where
  "digit_char d = ''0123456789'' ! d"

function str_nat :: "nat \<Rightarrow> string" where
  "str_nat n = (if n < 10 then [digit_char n] else str_nat (n div 10) @ [digit_char (n mod 10)])"
  by pat_completeness auto
termination
  by (relation "measure (\<lambda>n. n)") auto

definition str_int :: "int \<Rightarrow> string" where
  "str_int i = (if i < 0 then CHR ''-'' # str_nat (nat (- i)) else str_nat (nat i))"

text \<open>\<^verbatim>\<open>os.path.basename\<close> (POSIX): what follows the last slash.\<close>

definition basename :: "string \<Rightarrow> string" where
  "basename p = rev (takeWhile (\<lambda>c. c \<noteq> CHR ''/'') (rev p))"

text \<open>\<^verbatim>\<open>"\n".join(lines)\<close>.\<close>

fun join_lines :: "string list \<Rightarrow> string" where
  "join_lines [] = []"
| "join_lines [l] = l"
| "join_lines (l # ls) = l @ CHR 0x0A # join_lines ls"

subsection \<open>The template language of \<^verbatim>\<open>str.format\<close>\<close>

text \<open>
  \<^verbatim>\<open>template.format(**recipient)\<close>, after CPython's \<^verbatim>\<open>MarkupIterator\<close>. The
  keyword arguments are the entries of the dictionary; \<^verbatim>\<open>str.format\<close> accepts the
  key \<^verbatim>\<open>None\<close> of the surplus list among them, and no field name can refer to it.
  Literal text is copied; \<^verbatim>\<open>{{\<close> and
  \<^verbatim>\<open>}}\<close> stand for one brace; a single closing brace, an opening brace at the end
  and a field that is not closed raise \<^verbatim>\<open>ValueError\<close>. A replacement field with an
  empty or all-digit name is positional: there are no positional arguments, so it raises
  \<^verbatim>\<open>IndexError\<close> (\<^verbatim>\<open>ValueError\<close> when the number exceeds the largest index,
  \<open>2 ^ 63 - 1\<close>). Any other name is looked up among the columns: \<^verbatim>\<open>KeyError\<close> when
  absent, \<^verbatim>\<open>str\<close> of the value otherwise. The formatting is left to right, so the
  first error is the one raised.

  Fields that use a conversion, a format specification, an attribute or an index, and
  names with a byte outside ASCII (Unicode digits count as digits), are outside this
  fragment: from such a field on, the result is the environment's \<open>format_ext\<close>.
\<close>

datatype field_scan = Simple string string | Extended | Malformed exn

fun scan_field_name :: "string \<Rightarrow> string \<Rightarrow> field_scan" where
  "scan_field_name name [] = Malformed ValueError"
| "scan_field_name name (c # cs) =
     (if c = CHR ''}'' then Simple name cs
      else if c = CHR ''{'' then Malformed ValueError
      else if c = CHR ''!'' \<or> c = CHR '':'' \<or> c = CHR ''['' \<or> c = CHR ''.''
              \<or> (128::nat) \<le> of_char c then Extended
      else scan_field_name (name @ [c]) cs)"

definition is_digit :: "char \<Rightarrow> bool" where
  "is_digit c = (48 \<le> (of_char c :: nat) \<and> (of_char c :: nat) \<le> 57)"

definition digits_value :: "string \<Rightarrow> nat" where
  "digits_value ds = foldl (\<lambda>a c. 10 * a + (of_char c - 48)) 0 ds"

definition field_value :: "row \<Rightarrow> string \<Rightarrow> exn + string" where
  "field_value r name =
     (if name = [] then Inl IndexError
      else if list_all is_digit name then
        (if digits_value name \<le> 2 ^ 63 - 1 then Inl IndexError else Inl ValueError)
      else (case columns r name of
              None \<Rightarrow> Inl (KeyError name)
            | Some v \<Rightarrow> Inr (py_str v)))"

definition prepend :: "string \<Rightarrow> exn + string \<Rightarrow> exn + string" where
  "prepend s res = (case res of Inl x \<Rightarrow> Inl x | Inr out \<Rightarrow> Inr (s @ out))"

lemma scan_field_name_shorter:
  "scan_field_name name cs = Simple name' rest \<Longrightarrow> length rest < length cs"
proof (induction name cs rule: scan_field_name.induct)
  case (1 name)
  then show ?case by simp
next
  case (2 name c cs)
  then show ?case by (auto split: if_splits)
qed

function format_loop :: "env \<Rightarrow> row \<Rightarrow> string \<Rightarrow> exn + string" where
  "format_loop e r [] = Inr []"
| "format_loop e r (c # cs) =
     (if c = CHR ''}'' then
        (case cs of
           [] \<Rightarrow> Inl ValueError
         | d # ds \<Rightarrow> if d = CHR ''}'' then prepend [c] (format_loop e r ds) else Inl ValueError)
      else if c = CHR ''{'' then
        (case cs of
           [] \<Rightarrow> Inl ValueError
         | d # ds \<Rightarrow>
             if d = CHR ''{'' then prepend [c] (format_loop e r ds)
             else (case scan_field_name [] cs of
                     Malformed x \<Rightarrow> Inl x
                   | Extended \<Rightarrow> format_ext e (c # cs) r
                   | Simple name rest \<Rightarrow>
                       (case field_value r name of
                          Inl x \<Rightarrow> Inl x
                        | Inr s \<Rightarrow> prepend s (format_loop e r rest))))
      else prepend [c] (format_loop e r cs))"
  by pat_completeness auto
termination
  by (relation "measure (\<lambda>(e, r, t). length t)")
     (auto dest!: scan_field_name_shorter simp del: scan_field_name.simps)

definition py_format :: "env \<Rightarrow> string \<Rightarrow> row \<Rightarrow> exn + string" where
  "py_format e template r = format_loop e r template"

section \<open>Rendering one message\<close>

text \<open>
  \<^verbatim>\<open>attach_file\<close>, lines 174--191: everything is inside its own
  \<^verbatim>\<open>try/except Exception\<close>, so a file that cannot be read is logged and the message
  is left as it was. (The base64 transfer encoding of the payload is not modelled.)
\<close>

definition attach_file :: "env \<Rightarrow> message \<Rightarrow> string \<Rightarrow> event list \<Rightarrow> message \<times> event list" where
  "attach_file e msg filepath t =
     (let filename = basename filepath in
      case file_read e filepath of
        None \<Rightarrow> (msg, t @ [Log ERROR (AttachFailed filepath FileNotFoundError)])
      | Some (Inl x) \<Rightarrow> (msg, t @ [Log ERROR (AttachFailed filepath x)])
      | Some (Inr payload) \<Rightarrow>
          (msg\<lparr>msg_parts := msg_parts msg @ [(filename, payload)]\<rparr>,
           t @ [Log INFO (Attached filename)]))"

text \<open>The loop over the attachment paths, lines 160--164.\<close>

fun attach_all :: "env \<Rightarrow> message \<Rightarrow> string list \<Rightarrow> event list \<Rightarrow> message \<times> event list" where
  "attach_all e msg [] t = (msg, t)"
| "attach_all e msg (attachment_path # rest) t =
     (if file_read e attachment_path \<noteq> None then
        (case attach_file e msg attachment_path t of
           (msg', t') \<Rightarrow> attach_all e msg' rest t')
      else attach_all e msg rest (t @ [Log WARNING (AttachmentNotFound attachment_path)]))"

text \<open>
  \<^verbatim>\<open>create_email_message\<close>, lines 144--170. The statements of the
  \<^verbatim>\<open>try\<close> block that can raise are the two \<^verbatim>\<open>format\<close> calls and
  \<^verbatim>\<open>recipient['email']\<close>; the handler catches every \<^verbatim>\<open>Exception\<close>, logs it
  with \<^verbatim>\<open>recipient.get('email')\<close> and returns \<^verbatim>\<open>None\<close>.
  \<^verbatim>\<open>if attachments:\<close> skips both \<^verbatim>\<open>None\<close> and the empty list.
\<close>

definition create_email_message ::
  "bot \<Rightarrow> env \<Rightarrow> row \<Rightarrow> string \<Rightarrow> string \<Rightarrow> string list option \<Rightarrow> event list
     \<Rightarrow> message option \<times> event list" where
  "create_email_message self e recipient subject body_template attachments t =
     (case py_format e subject recipient of
        Inl x \<Rightarrow> (None, t @ [Log ERROR (CreateMessageError (row_get recipient ''email'') x)])
      | Inr personalized_subject \<Rightarrow>
     (case py_format e body_template recipient of
        Inl x \<Rightarrow> (None, t @ [Log ERROR (CreateMessageError (row_get recipient ''email'') x)])
      | Inr personalized_body \<Rightarrow>
     (case columns recipient ''email'' of
        None \<Rightarrow>
          (None, t @ [Log ERROR (CreateMessageError (row_get recipient ''email'')
                                   (KeyError ''email''))])
      | Some addr \<Rightarrow>
          (let msg = \<lparr>msg_from = sender_email self, msg_to = addr,
                      msg_subject = personalized_subject, msg_body = personalized_body,
                      msg_parts = []\<rparr>
           in case attachments of
                None \<Rightarrow> (Some msg, t)
              | Some paths \<Rightarrow>
                  (case attach_all e msg paths t of (msg', t') \<Rightarrow> (Some msg', t'))))))"

section \<open>Sending one message with retries\<close>

text \<open>
  \<^verbatim>\<open>send_email_with_retry\<close>, lines 206--236. The loop
  \<^verbatim>\<open>for attempt in range(max_retries)\<close> runs over the list of attempt indices;
  \<^verbatim>\<open>return\<close> inside the loop ends the recursion. The two refusals are caught by
  name and end the loop at once; every other exception is retried, with
  \<^verbatim>\<open>time.sleep(2 ** attempt)\<close> only when \<^verbatim>\<open>attempt < max_retries - 1\<close>.
  An exception raised inside the handler (by \<^verbatim>\<open>time.sleep\<close>) would leave the
  function.
\<close>

fun retry_loop ::
  "bot \<Rightarrow> env \<Rightarrow> message \<Rightarrow> string option \<Rightarrow> int \<Rightarrow> nat list \<Rightarrow> event list
     \<Rightarrow> (exn + bool) \<times> event list" where
  "retry_loop self e msg recipient_email max_retries [] t = (Inr False, t)"
| "retry_loop self e msg recipient_email max_retries (attempt # rest) t =
     (case smtp_session e self t msg of
        None \<Rightarrow> (Inr True, t @ [SmtpAttempt msg, Log INFO (SentOk recipient_email)])
      | Some x \<Rightarrow>
          if x = SMTPRecipientsRefused then
            (Inr False, t @ [SmtpAttempt msg, Log ERROR (RecipientRefused recipient_email)])
          else if x = SMTPSenderRefused then
            (Inr False, t @ [SmtpAttempt msg, Log ERROR SenderRefused])
          else if int attempt < max_retries - 1 then
            (case time_sleep (2 ^ attempt)
                    (t @ [SmtpAttempt msg,
                          Log WARNING (RetryIn (attempt + 1) max_retries recipient_email
                                         (2 ^ attempt) x)]) of
               (Inl x', t') \<Rightarrow> (Inl x', t')
             | (Inr u, t') \<Rightarrow> retry_loop self e msg recipient_email max_retries rest t')
          else
            retry_loop self e msg recipient_email max_retries rest
              (t @ [SmtpAttempt msg, Log ERROR (GaveUp recipient_email max_retries x)]))"

definition send_email_with_retry ::
  "bot \<Rightarrow> env \<Rightarrow> message \<Rightarrow> string option \<Rightarrow> int \<Rightarrow> event list
     \<Rightarrow> (exn + bool) \<times> event list" where
  "send_email_with_retry self e msg recipient_email max_retries t =
     retry_loop self e msg recipient_email max_retries [0..<nat max_retries] t"

section \<open>Bulk dispatch\<close>

text \<open>The statistics dictionary of \<^verbatim>\<open>send_bulk_emails\<close>, lines 254--259.\<close>

record stats =
  total :: int
  success :: int
  failed :: int
  failed_recipients :: "string option list"

text \<open>The progress line \<^verbatim>\<open>f"\n[{i}/{len(recipients)}] Processing: {recipient_email}"\<close>.\<close>

definition processing_line :: "nat \<Rightarrow> nat \<Rightarrow> string option \<Rightarrow> string" where
  "processing_line i n recipient_email =
     CHR 0x0A # ''['' @ str_nat i @ ''/'' @ str_nat n @ ''] Processing: '' @ py_str recipient_email"

text \<open>The two ways a recipient is accounted for, lines 274--275, 282--283 and line 280.\<close>

definition count_failed :: "string option \<Rightarrow> stats \<Rightarrow> stats" where
  "count_failed recipient_email st =
     st\<lparr>failed := failed st + 1,
        failed_recipients := failed_recipients st @ [recipient_email]\<rparr>"

definition count_success :: "stats \<Rightarrow> stats" where
  "count_success st = st\<lparr>success := success st + 1\<rparr>"

text \<open>
  The body of the loop of \<^verbatim>\<open>send_bulk_emails\<close>, lines 266--287, for the
  \<open>i\<close>-th of \<open>n\<close> recipients (\<^verbatim>\<open>enumerate(recipients, 1)\<close>). When no message
  could be built, \<^verbatim>\<open>continue\<close> goes to the next recipient at once
  (\<^verbatim>\<open>not msg\<close> holds for \<^verbatim>\<open>None\<close> only: a message object always has
  headers, so it is never empty).
  \<^verbatim>\<open>send_email_with_retry\<close> is called with its default \<^verbatim>\<open>max_retries = 3\<close>.
  An exception leaving \<^verbatim>\<open>send_email_with_retry\<close> or \<^verbatim>\<open>time.sleep(delay)\<close>
  is not caught and leaves the function.
\<close>

definition process_recipient ::
  "bot \<Rightarrow> env \<Rightarrow> nat \<Rightarrow> string \<Rightarrow> string \<Rightarrow> string list option \<Rightarrow> rat
     \<Rightarrow> nat \<Rightarrow> row \<Rightarrow> stats \<Rightarrow> event list \<Rightarrow> (exn + stats) \<times> event list" where
  "process_recipient self e n subject body_template attachments delay i recipient st t =
     (let recipient_email = row_get_default recipient ''email'' ''Unknown'' in
      case create_email_message self e recipient subject body_template attachments
             (t @ [Print (processing_line i n recipient_email)]) of
        (None, t1) \<Rightarrow> (Inr (count_failed recipient_email st), t1)
      | (Some msg, t1) \<Rightarrow>
          (case send_email_with_retry self e msg recipient_email 3 t1 of
             (Inl x, t2) \<Rightarrow> (Inl x, t2)
           | (Inr sent, t2) \<Rightarrow>
               (let st' = (if sent then count_success st
                           else count_failed recipient_email st)
                in if i < n then
                     (case time_sleep delay t2 of
                        (Inl x, t3) \<Rightarrow> (Inl x, t3)
                      | (Inr u, t3) \<Rightarrow> (Inr st', t3))
                   else (Inr st', t2))))"

text \<open>The loop, line 265: recipients strictly in input order, numbered from \<open>i\<close>.\<close>

fun bulk_loop ::
  "bot \<Rightarrow> env \<Rightarrow> nat \<Rightarrow> string \<Rightarrow> string \<Rightarrow> string list option \<Rightarrow> rat
     \<Rightarrow> nat \<Rightarrow> row list \<Rightarrow> stats \<Rightarrow> event list \<Rightarrow> (exn + stats) \<times> event list" where
  "bulk_loop self e n subject body_template attachments delay i [] st t = (Inr st, t)"
| "bulk_loop self e n subject body_template attachments delay i (recipient # rest) st t =
     (case process_recipient self e n subject body_template attachments delay i recipient st t of
        (Inl x, t') \<Rightarrow> (Inl x, t')
      | (Inr st', t') \<Rightarrow>
          bulk_loop self e n subject body_template attachments delay (i + 1) rest st' t')"

text \<open>\<^verbatim>\<open>send_bulk_emails\<close>, lines 254--289.\<close>

definition banner :: "string list" where
  "banner = [CHR 0x0A # replicate 50 (CHR ''=''), ''SENDING EMAILS'', replicate 50 (CHR ''='')]"

definition send_bulk_emails ::
  "bot \<Rightarrow> env \<Rightarrow> row list \<Rightarrow> string \<Rightarrow> string \<Rightarrow> string list option \<Rightarrow> rat
     \<Rightarrow> event list \<Rightarrow> (exn + stats) \<times> event list" where
  "send_bulk_emails self e recipients subject body_template attachments delay t =
     bulk_loop self e (length recipients) subject body_template attachments delay 1 recipients
       \<lparr>total = int (length recipients), success = 0, failed = 0, failed_recipients = []\<rparr>
       (t @ map Print banner)"

section \<open>Loading the recipients\<close>

text \<open>
  The check of one row, lines 109--115. \<^verbatim>\<open>not row['email']\<close> holds for
  \<^verbatim>\<open>None\<close> and for the empty string, and \<^verbatim>\<open>or\<close> does not evaluate
  \<^verbatim>\<open>'@' not in row['email']\<close> then.
\<close>

definition invalid_email :: "string option \<Rightarrow> bool" where
  "invalid_email v = (case v of None \<Rightarrow> True | Some s \<Rightarrow> s = [] \<or> CHR ''@'' \<notin> set s)"

text \<open>The loop over the rows, lines 108--118 (\<^verbatim>\<open>enumerate(csv_reader, 1)\<close>).\<close>

fun read_rows :: "nat \<Rightarrow> row list \<Rightarrow> row list \<Rightarrow> event list \<Rightarrow> row list \<times> event list" where
  "read_rows i [] recipients t = (recipients, t)"
| "read_rows i (r # rows) recipients t =
     (case columns r ''email'' of
        None \<Rightarrow> read_rows (i + 1) rows recipients (t @ [Log WARNING (RowMissingEmail i)])
      | Some v \<Rightarrow>
          if invalid_email v then
            read_rows (i + 1) rows recipients (t @ [Log WARNING (RowInvalidEmail i v)])
          else
            read_rows (i + 1) rows (recipients @ [r]) (t @ [Log INFO (LoadedRecipient v)]))"

text \<open>The two handlers, lines 123--128.\<close>

definition csv_failed :: "string \<Rightarrow> exn \<Rightarrow> event list \<Rightarrow> row list \<times> event list" where
  "csv_failed csv_file x t =
     (if x = FileNotFoundError then ([], t @ [Log ERROR (CsvNotFound csv_file)])
      else ([], t @ [Log ERROR (CsvReadError x)]))"

text \<open>
  \<^verbatim>\<open>read_recipients_from_csv\<close>, lines 102--128. An exception while the file is
  opened, or while the reader is iterated, ends in a handler; the rows read before it are
  dropped with it.
\<close>

definition read_recipients_from_csv :: "env \<Rightarrow> string \<Rightarrow> event list \<Rightarrow> row list \<times> event list" where
  "read_recipients_from_csv e csv_file t =
     (case csv_rows e csv_file of
        Inl x \<Rightarrow> csv_failed csv_file x t
      | Inr (rows, ending) \<Rightarrow>
          (case read_rows 1 rows [] t of
             (recipients, t') \<Rightarrow>
               (case ending of
                  Some x \<Rightarrow> csv_failed csv_file x t'
                | None \<Rightarrow>
                    (recipients, t' @ [Log INFO (LoadedAll (length recipients) csv_file)]))))"

section \<open>The report\<close>

text \<open>
  Floating point values are the rational numbers they denote. \<^verbatim>\<open>a / b\<close> on
  integers raises \<^verbatim>\<open>ZeroDivisionError\<close> for \<open>b = 0\<close> and is otherwise the quotient
  rounded to binary64; \<^verbatim>\<open>x * 100\<close> is the product rounded to binary64. The rounding
  itself is the environment's \<open>float_round\<close>. (Overflow to infinity is not modelled.)
\<close>

definition py_truediv :: "env \<Rightarrow> int \<Rightarrow> int \<Rightarrow> exn + rat" where
  "py_truediv e a b =
     (if b = 0 then Inl ZeroDivisionError else Inr (float_round e (of_int a / of_int b)))"

definition py_float_mul :: "env \<Rightarrow> rat \<Rightarrow> rat \<Rightarrow> rat" where
  "py_float_mul e x y = float_round e (x * y)"

text \<open>
  The format specification \<^verbatim>\<open>.1f\<close>: the decimal numeral with one digit after the
  point that is nearest to the value, ties to the even digit, with a minus sign for a
  negative value.
\<close>

definition round_half_even :: "rat \<Rightarrow> int" where
  "round_half_even x =
     (let f = \<lfloor>x\<rfloor>; d = x - of_int f
      in if d < 1 / 2 then f else if 1 / 2 < d then f + 1 else if even f then f else f + 1)"

definition tenths :: "rat \<Rightarrow> nat" where
  "tenths x = nat (round_half_even (\<bar>x\<bar> * 10))"

definition format_1f :: "rat \<Rightarrow> string" where
  "format_1f x =
     (if x < 0 then ''-'' else []) @ str_nat (tenths x div 10) @ ''.'' @ str_nat (tenths x mod 10)"

text \<open>
  The expression of line 300:
  \<^verbatim>\<open>stats['success']/stats['total']*100 if stats['total']>0 else 0\<close>.
\<close>

definition success_rate :: "env \<Rightarrow> stats \<Rightarrow> exn + rat" where
  "success_rate e st =
     (if total st > 0 then
        (case py_truediv e (success st) (total st) of
           Inl x \<Rightarrow> Inl x
         | Inr q \<Rightarrow> Inr (py_float_mul e q 100))
      else Inr 0)"

text \<open>The lines of the report, lines 293--309. The bullet is U+2022 in UTF-8.\<close>

definition bullet :: string where
  "bullet = [CHR 0xE2, CHR 0x80, CHR 0xA2]"

definition report_lines :: "env \<Rightarrow> stats \<Rightarrow> exn + string list" where
  "report_lines e st =
     (case success_rate e st of
        Inl x \<Rightarrow> Inl x
      | Inr rate \<Rightarrow>
          Inr ([CHR 0x0A # replicate 50 (CHR ''=''),
                ''EMAIL SEND REPORT'',
                replicate 50 (CHR ''=''),
                ''Total Recipients: '' @ str_int (total st),
                ''Successfully Sent: '' @ str_int (success st),
                ''Failed: '' @ str_int (failed st),
                ''Success Rate: '' @ format_1f rate @ ''%'']
               @ (if failed_recipients st \<noteq> [] then
                    [CHR 0x0A # ''Failed Recipients:'', replicate 20 (CHR ''-'')]
                    @ map (\<lambda>email. ''  '' @ bullet @ '' '' @ py_str email) (failed_recipients st)
                  else [])))"

text \<open>
  \<^verbatim>\<open>generate_report\<close>, lines 293--321: build the lines, print them, and write them
  to \<^verbatim>\<open>output_file\<close> when it is neither \<^verbatim>\<open>None\<close> nor empty; a failure to write
  is logged.
\<close>

definition generate_report ::
  "env \<Rightarrow> stats \<Rightarrow> string option \<Rightarrow> event list \<Rightarrow> (exn + unit) \<times> event list" where
  "generate_report e st output_file t =
     (case report_lines e st of
        Inl x \<Rightarrow> (Inl x, t)
      | Inr report \<Rightarrow>
          (let t1 = t @ [Print (join_lines report)] in
           case output_file of
             None \<Rightarrow> (Inr (), t1)
           | Some path \<Rightarrow>
               if path = [] then (Inr (), t1)
               else (case report_open e path of
                       None \<Rightarrow>
                         (Inr (), t1 @ [FileWritten path (join_lines report),
                                        Log INFO (ReportSaved path)])
                     | Some x \<Rightarrow> (Inr (), t1 @ [Log ERROR (ReportSaveFailed x)]))))"

section \<open>Reading traces\<close>

text \<open>Reading a trace: the SMTP sessions in it and the pauses in it.\<close>

fun attempts_of :: "event list \<Rightarrow> message list" where
  "attempts_of [] = []"
| "attempts_of (SmtpAttempt m # es) = m # attempts_of es"
| "attempts_of (ev # es) = attempts_of es"

fun sleeps_of :: "event list \<Rightarrow> rat list" where
  "sleeps_of [] = []"
| "sleeps_of (Sleep d # es) = d # sleeps_of es"
| "sleeps_of (ev # es) = sleeps_of es"

text \<open>The sessions and pauses of a trace, in order, everything else dropped.\<close>

fun timing :: "event list \<Rightarrow> event list" where
  "timing [] = []"
| "timing (SmtpAttempt m # es) = SmtpAttempt m # timing es"
| "timing (Sleep d # es) = Sleep d # timing es"
| "timing (ev # es) = timing es"

section \<open>Sample data\<close>

text \<open>
  A bot, an environment with no files whose SMTP sessions are given, and rows with the
  columns \<^verbatim>\<open>email\<close> and \<^verbatim>\<open>name\<close>, used to run the definitions on concrete
  inputs.
\<close>

definition sample_bot :: bot where
  "sample_bot = \<lparr>smtp_server = ''smtp.gmail.com'', smtp_port = 587,
                  sender_email = Some ''me@x.com'', password = Some ''secret''\<rparr>"

definition sample_env :: "(bot \<Rightarrow> event list \<Rightarrow> message \<Rightarrow> exn option) \<Rightarrow> env" where
  "sample_env session =
     \<lparr>smtp_session = session, file_read = Map.empty,
      csv_rows = (\<lambda>f. Inl FileNotFoundError), format_ext = (\<lambda>s r. Inl ValueError),
      float_round = (\<lambda>x. x), report_open = (\<lambda>f. None)\<rparr>"

definition person :: "string \<Rightarrow> string \<Rightarrow> row" where
  "person email name =
     \<lparr>columns = [''email'' \<mapsto> Some email, ''name'' \<mapsto> Some name], surplus = None\<rparr>"

text \<open>The row \<^verbatim>\<open>csv.DictReader\<close> yields for a line with one value more than the header.\<close>

definition person_with_surplus :: "string \<Rightarrow> string \<Rightarrow> string list \<Rightarrow> row" where
  "person_with_surplus email name extra =
     \<lparr>columns = [''email'' \<mapsto> Some email, ''name'' \<mapsto> Some name], surplus = Some extra\<rparr>"

definition email_only :: "string \<Rightarrow> row" where
  "email_only email = \<lparr>columns = [''email'' \<mapsto> Some email], surplus = None\<rparr>"

definition sample_message :: message where
  "sample_message = \<lparr>msg_from = Some ''me@x.com'', msg_to = Some ''a@x.com'',
                      msg_subject = ''Hi A'', msg_body = ''Hello A!'', msg_parts = []\<rparr>"

definition always_sent :: "bot \<Rightarrow> event list \<Rightarrow> message \<Rightarrow> exn option" where
  "always_sent self t msg = None"

definition always_auth_refused :: "bot \<Rightarrow> event list \<Rightarrow> message \<Rightarrow> exn option" where
  "always_auth_refused self t msg = Some SMTPAuthenticationError"

definition always_timeout :: "bot \<Rightarrow> event list \<Rightarrow> message \<Rightarrow> exn option" where
  "always_timeout self t msg = Some (OtherError ''timed out'')"

definition refuses :: "string \<Rightarrow> bot \<Rightarrow> event list \<Rightarrow> message \<Rightarrow> exn option" where
  "refuses addr self t msg = (if msg_to msg = Some addr then Some SMTPRecipientsRefused else None)"

text \<open>
  The exceptions the retry loop treats as permanent (caught by name) and the others.
\<close>

definition permanent :: "exn \<Rightarrow> bool" where
  "permanent x = (x = SMTPRecipientsRefused \<or> x = SMTPSenderRefused)"

text \<open>
  What one iteration of the retry loop adds to the sessions and pauses of the trace when
  the session fails with an exception that is retried.
\<close>

definition backoff_step :: "message \<Rightarrow> int \<Rightarrow> nat \<Rightarrow> event list" where
  "backoff_step msg max_retries i =
     SmtpAttempt msg # (if int i < max_retries - 1 then [Sleep (2 ^ i)] else [])"

section \<open>Predicates used to state the properties\<close>

text \<open>
  The loader's contract in the words of the specification: a row is excluded when its
  email field is absent (no such column, or no value for it in this row), empty, or
  lacks the character \<^verbatim>\<open>@\<close>.
\<close>

definition excluded_row :: "row \<Rightarrow> bool" where
  "excluded_row r =
     (case columns r ''email'' of
        None \<Rightarrow> True
      | Some None \<Rightarrow> True
      | Some (Some s) \<Rightarrow> s = [] \<or> CHR ''@'' \<notin> set s)"

text \<open>An environment whose CSV file yields the given rows and ends normally.\<close>

definition csv_env :: "row list \<Rightarrow> env" where
  "csv_env rows = (sample_env always_sent)\<lparr>csv_rows := (\<lambda>f. Inr (rows, None))\<rparr>"

text \<open>
  A template's literal text (no brace) and a plain field name: not empty, not a number,
  and free of the characters that end a name or start a conversion, a format
  specification, an attribute or an index.
\<close>

definition literal_text :: "string \<Rightarrow> bool" where
  "literal_text s = list_all (\<lambda>c. c \<noteq> CHR ''{'' \<and> c \<noteq> CHR ''}'') s"

definition name_char :: "char \<Rightarrow> bool" where
  "name_char c =
     (c \<noteq> CHR ''}'' \<and> c \<noteq> CHR ''{'' \<and> c \<noteq> CHR ''!'' \<and> c \<noteq> CHR '':'' \<and> c \<noteq> CHR ''[''
      \<and> c \<noteq> CHR ''.'' \<and> (of_char c :: nat) < 128)"

definition plain_name :: "string \<Rightarrow> bool" where
  "plain_name name = (name \<noteq> [] \<and> list_all name_char name \<and> \<not> list_all is_digit name)"

text \<open>Rendering succeeds: both templates format and the row has the key \<^verbatim>\<open>email\<close>.\<close>

definition renders :: "env \<Rightarrow> row \<Rightarrow> string \<Rightarrow> string \<Rightarrow> bool" where
  "renders e r subject body_template =
     (case py_format e subject r of
        Inl x \<Rightarrow> False
      | Inr s \<Rightarrow>
          (case py_format e body_template r of
             Inl x \<Rightarrow> False
           | Inr b \<Rightarrow> columns r ''email'' \<noteq> None))"

text \<open>
  The accounting invariant of the statistics, relative to the value \<open>st\<close> they had
  \<open>k\<close> recipients earlier: the total is unchanged, the two counters together went up by
  \<open>k\<close>, and the list of failed recipients grew as the counter of failures did.
\<close>

definition accounted :: "stats \<Rightarrow> nat \<Rightarrow> stats \<Rightarrow> bool" where
  "accounted st k st' =
     (total st' = total st
      \<and> success st' + failed st' = success st + failed st + int k
      \<and> int (length (failed_recipients st')) - failed st' =
          int (length (failed_recipients st)) - failed st)"


section \<open>Properties of the retry loop\<close>

lemma time_sleep_nonneg: "0 \<le> d \<Longrightarrow> time_sleep d t = (Inr (), t @ [Sleep d])"
  by (simp add: time_sleep_def)

lemma timing_append: "timing (xs @ ys) = timing xs @ timing ys"
  by (induction xs rule: timing.induct) simp_all

lemma attempts_of_append: "attempts_of (xs @ ys) = attempts_of xs @ attempts_of ys"
  by (induction xs rule: attempts_of.induct) simp_all

lemma sleeps_of_append: "sleeps_of (xs @ ys) = sleeps_of xs @ sleeps_of ys"
  by (induction xs rule: sleeps_of.induct) simp_all

lemma attempts_of_timing: "attempts_of (timing xs) = attempts_of xs"
  by (induction xs rule: timing.induct) simp_all

lemma sleeps_of_timing: "sleeps_of (timing xs) = sleeps_of xs"
  by (induction xs rule: timing.induct) simp_all

text \<open>One iteration whose session raises an exception that is not a refusal.\<close>

lemma retry_loop_retry:
  assumes "smtp_session e self t msg = Some x" "\<not> permanent x" "int a < mr - 1"
  shows "retry_loop self e msg r mr (a # as) t =
         retry_loop self e msg r mr as
           (t @ [SmtpAttempt msg, Log WARNING (RetryIn (a + 1) mr r (2 ^ a) x), Sleep (2 ^ a)])"
  using assms by (simp add: permanent_def time_sleep_nonneg)

lemma retry_loop_give_up:
  assumes "smtp_session e self t msg = Some x" "\<not> permanent x" "\<not> int a < mr - 1"
  shows "retry_loop self e msg r mr (a # as) t =
         retry_loop self e msg r mr as (t @ [SmtpAttempt msg, Log ERROR (GaveUp r mr x)])"
  using assms by (simp add: permanent_def)

lemma retry_loop_transient:
  assumes "\<forall>t. \<exists>x. smtp_session e self t msg = Some x \<and> \<not> permanent x"
  shows "\<exists>evs. retry_loop self e msg r mr as t = (Inr False, t @ evs)
           \<and> timing evs = concat (map (backoff_step msg mr) as)"
proof (induction as arbitrary: t)
  case Nil
  then show ?case by simp
next
  case (Cons a as)
  obtain x where x: "smtp_session e self t msg = Some x" "\<not> permanent x"
    using assms by blast
  show ?case
  proof (cases "int a < mr - 1")
    case True
    define new where
      "new = [SmtpAttempt msg, Log WARNING (RetryIn (a + 1) mr r (2 ^ a) x), Sleep (2 ^ a)]"
    from Cons.IH [of "t @ new"] obtain evs where
      evs: "retry_loop self e msg r mr as (t @ new) = (Inr False, (t @ new) @ evs)"
           "timing evs = concat (map (backoff_step msg mr) as)" by blast
    have "retry_loop self e msg r mr (a # as) t = (Inr False, t @ (new @ evs))"
      using retry_loop_retry [OF x True] evs(1) by (simp add: new_def)
    moreover have "timing (new @ evs) = concat (map (backoff_step msg mr) (a # as))"
      using evs(2) True by (simp add: timing_append new_def backoff_step_def)
    ultimately show ?thesis by blast
  next
    case False
    define new where "new = [SmtpAttempt msg, Log ERROR (GaveUp r mr x)]"
    from Cons.IH [of "t @ new"] obtain evs where
      evs: "retry_loop self e msg r mr as (t @ new) = (Inr False, (t @ new) @ evs)"
           "timing evs = concat (map (backoff_step msg mr) as)" by blast
    have "retry_loop self e msg r mr (a # as) t = (Inr False, t @ (new @ evs))"
      using retry_loop_give_up [OF x False] evs(1) by (simp add: new_def)
    moreover have "timing (new @ evs) = concat (map (backoff_step msg mr) (a # as))"
      using evs(2) False by (simp add: timing_append new_def backoff_step_def)
    ultimately show ?thesis by blast
  qed
qed

lemma backoff_steps_upt:
  assumes "int m = mr - 1"
  shows "concat (map (backoff_step msg mr) [0..<Suc m]) =
         concat (map (\<lambda>i. [SmtpAttempt msg, Sleep (2 ^ i)]) [0..<m]) @ [SmtpAttempt msg]"
proof -
  have body: "map (backoff_step msg mr) [0..<m] =
              map (\<lambda>i. [SmtpAttempt msg, Sleep (2 ^ i)]) [0..<m]"
    using assms by (intro map_cong) (auto simp: backoff_step_def)
  have last: "backoff_step msg mr m = [SmtpAttempt msg]"
    using assms by (simp add: backoff_step_def)
  show ?thesis by (simp add: body last)
qed

lemma attempts_of_pattern:
  "attempts_of (concat (map (\<lambda>i. [SmtpAttempt msg, Sleep (2 ^ i)]) [0..<m])) = replicate m msg"
  by (induction m) (simp_all add: attempts_of_append replicate_append_same)

lemma sleeps_of_pattern:
  "sleeps_of (concat (map (\<lambda>i. [SmtpAttempt msg, Sleep (2 ^ i)]) [0..<m])) =
   map (\<lambda>i. 2 ^ i) [0..<m]"
  by (induction m) (simp_all add: sleeps_of_append)

text \<open>
  Claim C2. Let \<open>max_retries \<ge> 1\<close> and let every SMTP session for the message raise an
  exception that is not one of the two refusals. Then \<^verbatim>\<open>send_email_with_retry\<close>
  returns \<^verbatim>\<open>False\<close>; the sessions and pauses it adds to the trace are, in order,
  session, pause of \<open>2 ^ 0\<close>, session, pause of \<open>2 ^ 1\<close>, ..., pause of
  \<open>2 ^ (max_retries - 2)\<close>, session: exactly \<open>max_retries\<close> sessions, a pause of
  \<open>2 ^ i\<close> seconds after the session of index \<open>i\<close> only when another session
  follows, none after the last, and a total pause of the sum of \<open>2 ^ i\<close> for \<open>i\<close>
  from \<open>0\<close> to \<open>max_retries - 2\<close>.
\<close>

theorem send_email_with_retry_all_transient:
  assumes "1 \<le> max_retries"
    and "\<forall>t. \<exists>x. smtp_session e self t msg = Some x \<and> \<not> permanent x"
  shows "\<exists>evs. send_email_with_retry self e msg r max_retries t = (Inr False, t @ evs)
           \<and> timing evs =
               concat (map (\<lambda>i. [SmtpAttempt msg, Sleep (2 ^ i)]) [0..<nat max_retries - 1])
                 @ [SmtpAttempt msg]
           \<and> attempts_of evs = replicate (nat max_retries) msg
           \<and> sleeps_of evs = map (\<lambda>i. 2 ^ i) [0..<nat max_retries - 1]
           \<and> sum_list (sleeps_of evs) = (\<Sum>i = 0..<nat max_retries - 1. 2 ^ i)"
proof -
  define m where "m = nat max_retries - 1"
  have m: "nat max_retries = Suc m" "int m = max_retries - 1"
    using assms(1) by (simp_all add: m_def)
  obtain evs where evs:
    "retry_loop self e msg r max_retries [0..<Suc m] t = (Inr False, t @ evs)"
    "timing evs = concat (map (backoff_step msg max_retries) [0..<Suc m])"
    using retry_loop_transient [OF assms(2)] by blast
  have tm: "timing evs =
            concat (map (\<lambda>i. [SmtpAttempt msg, Sleep (2 ^ i)]) [0..<m]) @ [SmtpAttempt msg]"
    using evs(2) backoff_steps_upt [OF m(2)] by simp
  have "attempts_of evs = attempts_of (timing evs)" by (simp add: attempts_of_timing)
  then have at: "attempts_of evs = replicate (Suc m) msg"
    by (simp add: tm attempts_of_append attempts_of_pattern replicate_append_same)
  have "sleeps_of evs = sleeps_of (timing evs)" by (simp add: sleeps_of_timing)
  then have sl: "sleeps_of evs = map (\<lambda>i. 2 ^ i) [0..<m]"
    by (simp add: tm sleeps_of_append sleeps_of_pattern)
  have "sum_list (sleeps_of evs) = (\<Sum>i = 0..<m. 2 ^ i)"
    unfolding sl by (simp add: sum_list_map_eq_sum_count interv_sum_list_conv_sum_set_nat)
  with evs(1) tm at sl show ?thesis
    by (simp add: send_email_with_retry_def m m_def [symmetric])
qed

text \<open>
  The theorem at three attempts that all time out: sessions and pauses are session,
  1 s, session, 2 s, session; the pauses add up to 3 s.
\<close>

theorem send_email_with_retry_all_transient_witness:
  "1 \<le> (3::int) \<and>
   (\<forall>t. \<exists>x. smtp_session (sample_env always_timeout) sample_bot t sample_message = Some x
             \<and> \<not> permanent x) \<and>
   (\<exists>evs. send_email_with_retry sample_bot (sample_env always_timeout) sample_message
             (Some ''a@x.com'') 3 [] = (Inr False, evs)
      \<and> timing evs = [SmtpAttempt sample_message, Sleep 1, SmtpAttempt sample_message,
                       Sleep 2, SmtpAttempt sample_message]
      \<and> length (attempts_of evs) = 3
      \<and> sum_list (sleeps_of evs) = 3)"
proof -
  have h: "\<forall>t. \<exists>x. smtp_session (sample_env always_timeout) sample_bot t sample_message = Some x
             \<and> \<not> permanent x"
    by (simp add: sample_env_def always_timeout_def permanent_def)
  have n: "[0..<nat 3 - 1] = [0, 1]" by (simp add: upt_conv_Cons)
  from send_email_with_retry_all_transient [OF _ h, of 3 "Some ''a@x.com''" "[]"] h n
  show ?thesis by (auto simp: numeral_2_eq_2)
qed

text \<open>
  The two exceptions the handlers name end the loop at once. Let \<open>max_retries \<ge> 1\<close>
  and let the first SMTP session raise \<^verbatim>\<open>SMTPRecipientsRefused\<close> or
  \<^verbatim>\<open>SMTPSenderRefused\<close>. Then \<^verbatim>\<open>send_email_with_retry\<close> returns
  \<^verbatim>\<open>False\<close> and adds to the trace exactly that one session and the error log
  record: no second session, no pause.
\<close>

lemma send_email_with_retry_permanent:
  assumes "1 \<le> max_retries"
    and "smtp_session e self t msg = Some x"
    and "permanent x"
  shows "send_email_with_retry self e msg r max_retries t =
           (Inr False,
            t @ [SmtpAttempt msg,
                 Log ERROR (if x = SMTPRecipientsRefused then RecipientRefused r
                            else SenderRefused)])"
proof -
  from assms(1) have "[0..<nat max_retries] = 0 # [1..<nat max_retries]"
    by (simp add: upt_conv_Cons)
  with assms(2,3) show ?thesis
    by (auto simp: send_email_with_retry_def permanent_def)
qed

text \<open>The same at a server that refuses the recipient of the sample message.\<close>

lemma send_email_with_retry_permanent_sample:
  "1 \<le> (3::int) \<and> permanent SMTPRecipientsRefused \<and>
   send_email_with_retry sample_bot (sample_env (refuses ''a@x.com'')) sample_message
       (Some ''a@x.com'') 3 [] =
     (Inr False, [SmtpAttempt sample_message, Log ERROR (RecipientRefused (Some ''a@x.com''))])"
  using send_email_with_retry_permanent
    [of 3 "sample_env (refuses ''a@x.com'')" sample_bot "[]" sample_message
        SMTPRecipientsRefused "Some ''a@x.com''"]
  by (simp add: permanent_def sample_env_def refuses_def sample_message_def)

text \<open>
  Claim C3. The claim counts a refused authentication among the permanent failures, and
  the handler of \<^verbatim>\<open>SMTPSenderRefused\<close> logs ``Sender refused. Check
  authentication.'' But \<^verbatim>\<open>server.login\<close> reports rejected credentials with
  \<^verbatim>\<open>SMTPAuthenticationError\<close>, which neither handler names, so it is retried like a
  timeout. Here the server rejects the credentials in every session and
  \<^verbatim>\<open>max_retries\<close> is 3: \<^verbatim>\<open>send_email_with_retry\<close> opens three sessions
  and pauses 1 s and 2 s between them before it gives up, where the claim promises one
  session, no pause and failure reported at once.
\<close>

theorem send_email_with_retry_auth_refused_retried:
  "send_email_with_retry sample_bot (sample_env always_auth_refused) sample_message
       (Some ''a@x.com'') 3 [] =
     (Inr False,
      [SmtpAttempt sample_message,
       Log WARNING (RetryIn 1 3 (Some ''a@x.com'') 1 SMTPAuthenticationError),
       Sleep 1,
       SmtpAttempt sample_message,
       Log WARNING (RetryIn 2 3 (Some ''a@x.com'') 2 SMTPAuthenticationError),
       Sleep 2,
       SmtpAttempt sample_message,
       Log ERROR (GaveUp (Some ''a@x.com'') 3 SMTPAuthenticationError)])
   \<and> \<not> permanent SMTPAuthenticationError"
  by code_simp

text \<open>
  Claim C9. With \<open>max_retries = 0\<close> the loop body never runs:
  \<^verbatim>\<open>send_email_with_retry\<close> returns \<^verbatim>\<open>False\<close> and leaves the trace as it was
  (no session, no pause, no log record).
\<close>

theorem send_email_with_retry_zero:
  "send_email_with_retry self e msg r 0 t = (Inr False, t)"
  by (simp add: send_email_with_retry_def)

theorem send_email_with_retry_zero_witness:
  "send_email_with_retry sample_bot (sample_env always_sent) sample_message (Some ''a@x.com'') 0 []
     = (Inr False, [])"
  by (rule send_email_with_retry_zero)

section \<open>Properties of the loader\<close>

lemma read_rows_filter:
  "fst (read_rows i rows recipients t) = recipients @ filter (\<lambda>r. \<not> excluded_row r) rows"
  by (induction rows arbitrary: i recipients t)
     (auto simp: excluded_row_def invalid_email_def split: option.splits)

lemma count_list_filter:
  "count_list (filter P xs) x = (if P x then count_list xs x else 0)"
  by (induction xs) auto

text \<open>
  Claim C5. When the CSV file opens and is read to its end, the list returned by
  \<^verbatim>\<open>read_recipients_from_csv\<close> is the input rows, in order, without exactly the
  rows whose email field is absent, empty or without \<^verbatim>\<open>@\<close>. Every other row is
  in the result as it was read, as many times as it was read.
\<close>

theorem read_recipients_from_csv_filter:
  assumes "csv_rows e csv_file = Inr (rows, None)"
  shows "fst (read_recipients_from_csv e csv_file t) = filter (\<lambda>r. \<not> excluded_row r) rows
         \<and> (\<forall>r. count_list (fst (read_recipients_from_csv e csv_file t)) r =
                  (if excluded_row r then 0 else count_list rows r))"
proof -
  have "fst (read_recipients_from_csv e csv_file t) = fst (read_rows 1 rows [] t)"
    using assms by (simp add: read_recipients_from_csv_def split: prod.splits)
  then have "fst (read_recipients_from_csv e csv_file t) = filter (\<lambda>r. \<not> excluded_row r) rows"
    by (simp add: read_rows_filter)
  then show ?thesis by (simp add: count_list_filter)
qed

theorem read_recipients_from_csv_filter_witness:
  "fst (read_recipients_from_csv
          (csv_env [person ''a@x.com'' ''A'', person ''bad'' ''B'', person ''c@x.com'' ''C'',
                    person ''a@x.com'' ''A'', person [] ''D'',
                    \<lparr>columns = [''name'' \<mapsto> Some ''E''], surplus = None\<rparr>])
          ''recipients.csv'' [])
     = [person ''a@x.com'' ''A'', person ''c@x.com'' ''C'', person ''a@x.com'' ''A'']"
  using read_recipients_from_csv_filter
    [of "csv_env [person ''a@x.com'' ''A'', person ''bad'' ''B'', person ''c@x.com'' ''C'',
                    person ''a@x.com'' ''A'', person [] ''D'',
                    \<lparr>columns = [''name'' \<mapsto> Some ''E''], surplus = None\<rparr>]"
        "''recipients.csv''" _ "[]"]
  by (simp add: csv_env_def sample_env_def excluded_row_def person_def)

text \<open>
  Claim C7. When opening the CSV file raises, \<^verbatim>\<open>read_recipients_from_csv\<close>
  returns the empty list and adds one record at level ERROR to the log: ``CSV file not
  found'' for \<^verbatim>\<open>FileNotFoundError\<close>, ``Error reading CSV file'' for any other
  exception. Nothing is raised to the caller.
\<close>

theorem read_recipients_from_csv_not_found:
  assumes "csv_rows e csv_file = Inl x"
  shows "read_recipients_from_csv e csv_file t =
           ([], t @ [Log ERROR (if x = FileNotFoundError then CsvNotFound csv_file
                                else CsvReadError x)])"
  using assms by (simp add: read_recipients_from_csv_def csv_failed_def)

theorem read_recipients_from_csv_not_found_witness:
  "read_recipients_from_csv (sample_env always_sent) ''missing.csv'' [] =
     ([], [Log ERROR (CsvNotFound ''missing.csv'')])"
  using read_recipients_from_csv_not_found
    [of "sample_env always_sent" "''missing.csv''" FileNotFoundError "[]"]
  by (simp add: sample_env_def)

section \<open>Properties of rendering\<close>

lemma prepend_Nil: "prepend [] res = res"
  by (simp add: prepend_def split: sum.splits)

lemma prepend_prepend: "prepend s (prepend s' res) = prepend (s @ s') res"
  by (simp add: prepend_def split: sum.splits)

lemma format_loop_literal:
  "literal_text lit \<Longrightarrow> format_loop e r (lit @ rest) = prepend lit (format_loop e r rest)"
  by (induction lit) (simp_all add: literal_text_def prepend_Nil prepend_prepend)

lemma scan_field_name_plain:
  "list_all name_char name \<Longrightarrow>
   scan_field_name acc (name @ CHR ''}'' # rest) = Simple (acc @ name) rest"
  by (induction name arbitrary: acc) (simp_all add: name_char_def)

lemma format_loop_field:
  assumes "plain_name name"
  shows "format_loop e r (CHR ''{'' # name @ CHR ''}'' # rest) =
           (case field_value r name of
              Inl x \<Rightarrow> Inl x
            | Inr s \<Rightarrow> prepend s (format_loop e r rest))"
proof -
  from assms obtain c cs where name: "name = c # cs"
    by (cases name) (auto simp: plain_name_def)
  from assms have c: "c \<noteq> CHR ''{''"
    by (simp add: name plain_name_def name_char_def)
  have "scan_field_name [] ((c # cs) @ CHR ''}'' # rest) = Simple ([] @ (c # cs)) rest"
    using assms unfolding name plain_name_def by (intro scan_field_name_plain) simp
  then have scan: "scan_field_name [] (c # cs @ CHR ''}'' # rest) = Simple (c # cs) rest"
    by simp
  show ?thesis
    unfolding name using c scan by (simp del: scan_field_name.simps)
qed

lemma field_value_absent:
  "plain_name name \<Longrightarrow> columns r name = None \<Longrightarrow> field_value r name = Inl (KeyError name)"
  by (simp add: field_value_def plain_name_def)

lemma py_format_absent_field:
  assumes "literal_text lit" "plain_name name" "columns r name = None"
  shows "isl (py_format e (lit @ ''{'' @ name @ ''}'' @ rest) r)"
proof -
  have "format_loop e r (lit @ CHR ''{'' # name @ CHR ''}'' # rest) = Inl (KeyError name)"
    using assms
    by (simp add: format_loop_literal format_loop_field field_value_absent prepend_def
             del: format_loop.simps)
  then show ?thesis by (simp add: py_format_def)
qed

lemma create_email_message_None_iff:
  "fst (create_email_message self e r subject body_template attachments t) = None
     \<longleftrightarrow> \<not> renders e r subject body_template"
  by (simp add: create_email_message_def renders_def Let_def
           split: sum.splits option.splits prod.splits)

text \<open>
  Claim C10. \<^verbatim>\<open>create_email_message\<close> returns a message or \<^verbatim>\<open>None\<close> and never
  raises: it returns \<^verbatim>\<open>None\<close> exactly when a statement of its \<^verbatim>\<open>try\<close> block
  raises, that is when formatting the subject raises, formatting the body raises, or the
  row has no key \<^verbatim>\<open>email\<close>. In particular it returns \<^verbatim>\<open>None\<close> for a row without
  the key \<^verbatim>\<open>email\<close>, and for a subject or body that holds, after literal text, a
  placeholder naming a column the row does not have.
\<close>

theorem create_email_message_none_on_error:
  "(fst (create_email_message self e r subject body_template attachments t) = None
      \<longleftrightarrow> isl (py_format e subject r) \<or> isl (py_format e body_template r)
          \<or> columns r ''email'' = None)
   \<and> (columns r ''email'' = None \<longrightarrow>
        fst (create_email_message self e r subject body_template attachments t) = None)
   \<and> (literal_text lit \<and> plain_name name \<and> columns r name = None \<longrightarrow>
        fst (create_email_message self e r (lit @ ''{'' @ name @ ''}'' @ rest) body_template
               attachments t) = None
        \<and> fst (create_email_message self e r subject (lit @ ''{'' @ name @ ''}'' @ rest)
                 attachments t) = None)"
proof -
  have iff: "fst (create_email_message self e r s b attachments t) = None
      \<longleftrightarrow> isl (py_format e s r) \<or> isl (py_format e b r) \<or> columns r ''email'' = None"
    for s b
    by (simp add: create_email_message_None_iff renders_def split: sum.splits)
  show ?thesis
    using py_format_absent_field [of lit name r e rest] by (simp add: iff)
qed

theorem create_email_message_none_on_error_witness:
  "literal_text ''Hi '' \<and> plain_name ''name'' \<and> columns (email_only ''a@x.com'') ''name'' = None
   \<and> fst (create_email_message sample_bot (sample_env always_sent) (email_only ''a@x.com'')
            ''Hi {name}'' ''Hello!'' None []) = None
   \<and> columns (person ''a@x.com'' ''A'') ''company'' = None
   \<and> fst (create_email_message sample_bot (sample_env always_sent) (person ''a@x.com'' ''A'')
            ''Hi {name}'' ''Greetings to {company}'' None []) = None
   \<and> columns \<lparr>columns = [''name'' \<mapsto> Some ''E''], surplus = None\<rparr> ''email'' = None
   \<and> fst (create_email_message sample_bot (sample_env always_sent)
            \<lparr>columns = [''name'' \<mapsto> Some ''E''], surplus = None\<rparr>
            ''Hi {name}'' ''Hello!'' None []) = None
   \<and> fst (create_email_message sample_bot (sample_env always_sent) (person ''a@x.com'' ''A'')
            ''Hi {name}'' ''Hello {name}!'' None []) \<noteq> None
   \<and> fst (create_email_message sample_bot (sample_env always_sent)
            (person_with_surplus ''c@x.com'' ''Cid'' [[]]) ''Hi {name}'' ''Hello {name}!'' None [])
       = Some \<lparr>msg_from = Some ''me@x.com'', msg_to = Some ''c@x.com'',
                  msg_subject = ''Hi Cid'', msg_body = ''Hello Cid!'', msg_parts = []\<rparr>"
proof -
  have l1: "literal_text ''Hi ''" and l2: "literal_text ''Greetings to ''"
    by (simp_all add: literal_text_def)
  have n1: "plain_name ''name''" and n2: "plain_name ''company''"
    by (simp_all add: plain_name_def name_char_def is_digit_def)
  have a1: "columns (email_only ''a@x.com'') ''name'' = None"
    and a2: "columns (person ''a@x.com'' ''A'') ''company'' = None"
    and a3: "columns \<lparr>columns = [''name'' \<mapsto> Some ''E''], surplus = None\<rparr> ''email'' = None"
    by (simp_all add: email_only_def person_def)
  have ok: "renders (sample_env always_sent) (person ''a@x.com'' ''A'') ''Hi {name}'' ''Hello {name}!''"
    by (simp add: renders_def py_format_def person_def field_value_def is_digit_def
          py_str_def prepend_def)
  have sp: "fst (create_email_message sample_bot (sample_env always_sent)
            (person_with_surplus ''c@x.com'' ''Cid'' [[]]) ''Hi {name}'' ''Hello {name}!'' None [])
       = Some \<lparr>msg_from = Some ''me@x.com'', msg_to = Some ''c@x.com'',
                  msg_subject = ''Hi Cid'', msg_body = ''Hello Cid!'', msg_parts = []\<rparr>"
    by code_simp
  note inst = create_email_message_none_on_error
  from inst [of sample_bot "sample_env always_sent" "email_only ''a@x.com''" "''Hi {name}''"
              "''Hello!''" None "[]" "''Hi ''" "''name''" "[]"]
       inst [of sample_bot "sample_env always_sent" "person ''a@x.com'' ''A''" "''Hi {name}''"
              "''Greetings to {company}''" None "[]" "''Greetings to ''" "''company''" "[]"]
       inst [of sample_bot "sample_env always_sent"
              "\<lparr>columns = [''name'' \<mapsto> Some ''E''], surplus = None\<rparr>" "''Hi {name}''"
              "''Hello!''" None "[]" "[]" "[]" "[]"]
       l1 l2 n1 n2 a1 a2 a3 ok sp
  show ?thesis
    by (simp add: create_email_message_None_iff del: format_loop.simps)
qed

section \<open>Properties of the bulk dispatch\<close>

text \<open>The retry loop always returns, and only extends the trace.\<close>

lemma retry_loop_returns:
  "\<exists>sent evs. retry_loop self e msg r mr as t = (Inr sent, t @ evs)"
proof (induction as arbitrary: t)
  case Nil
  have "retry_loop self e msg r mr [] t = (Inr False, t @ [])" by simp
  then show ?case by blast
next
  case (Cons a as)
  show ?case
  proof (cases "smtp_session e self t msg")
    case None
    then have "retry_loop self e msg r mr (a # as) t =
                 (Inr True, t @ [SmtpAttempt msg, Log INFO (SentOk r)])" by simp
    then show ?thesis by blast
  next
    case (Some x)
    show ?thesis
    proof (cases "permanent x")
      case True
      with Some have "retry_loop self e msg r mr (a # as) t =
          (Inr False, t @ [SmtpAttempt msg,
             Log ERROR (if x = SMTPRecipientsRefused then RecipientRefused r else SenderRefused)])"
        by (auto simp: permanent_def)
      then show ?thesis by blast
    next
      case False
      show ?thesis
      proof (cases "int a < mr - 1")
        case True
        from Cons.IH obtain sent evs where
          "retry_loop self e msg r mr as
             (t @ [SmtpAttempt msg, Log WARNING (RetryIn (a + 1) mr r (2 ^ a) x), Sleep (2 ^ a)])
           = (Inr sent,
              (t @ [SmtpAttempt msg, Log WARNING (RetryIn (a + 1) mr r (2 ^ a) x), Sleep (2 ^ a)])
                @ evs)"
          by blast
        then show ?thesis
          using retry_loop_retry [OF Some False True, of r as] by simp
      next
        case no_pause: False
        from Cons.IH obtain sent evs where
          "retry_loop self e msg r mr as (t @ [SmtpAttempt msg, Log ERROR (GaveUp r mr x)])
           = (Inr sent, (t @ [SmtpAttempt msg, Log ERROR (GaveUp r mr x)]) @ evs)"
          by blast
        then show ?thesis
          using retry_loop_give_up [OF Some False no_pause, of r as] by simp
      qed
    qed
  qed
qed

lemma send_email_with_retry_returns:
  "\<exists>sent evs. send_email_with_retry self e msg r mr t = (Inr sent, t @ evs)"
  unfolding send_email_with_retry_def by (rule retry_loop_returns)

text \<open>Attaching files adds log records only.\<close>

lemma attach_all_extends:
  "\<exists>msg' evs. attach_all e msg paths t = (msg', t @ evs) \<and> timing evs = []"
proof (induction paths arbitrary: msg t)
  case Nil
  then show ?case by simp
next
  case (Cons p paths)
  show ?case
  proof (cases "file_read e p")
    case None
    from Cons.IH [of msg "t @ [Log WARNING (AttachmentNotFound p)]"] None
    show ?thesis by (auto simp: timing_append)
  next
    case (Some res)
    obtain m1 lv ev where a: "attach_file e msg p t = (m1, t @ [Log lv ev])"
      using Some by (cases res) (auto simp: attach_file_def Let_def)
    from Cons.IH [of m1 "t @ [Log lv ev]"] a Some
    show ?thesis by (auto simp: timing_append)
  qed
qed

lemma create_email_message_fails:
  assumes "\<not> renders e r subject body_template"
  shows "\<exists>x. create_email_message self e r subject body_template attachments t =
               (None, t @ [Log ERROR (CreateMessageError (row_get r ''email'') x)])"
  using assms
  by (auto simp: create_email_message_def renders_def split: sum.splits option.splits)

lemma create_email_message_renders:
  assumes "renders e r subject body_template"
  shows "\<exists>msg evs. create_email_message self e r subject body_template attachments t =
               (Some msg, t @ evs) \<and> timing evs = []"
proof -
  from assms obtain s b addr where
    f: "py_format e subject r = Inr s" "py_format e body_template r = Inr b"
       "columns r ''email'' = Some addr"
    by (auto simp: renders_def split: sum.splits)
  show ?thesis
  proof (cases attachments)
    case None
    with f show ?thesis by (simp add: create_email_message_def)
  next
    case (Some paths)
    obtain msg' evs where
      "attach_all e \<lparr>msg_from = sender_email self, msg_to = addr, msg_subject = s,
                      msg_body = b, msg_parts = []\<rparr> paths t = (msg', t @ evs)"
      "timing evs = []"
      using attach_all_extends by blast
    with f Some show ?thesis by (simp add: create_email_message_def)
  qed
qed

text \<open>The loop body when no message can be built: counted as failed, no session, no pause.\<close>

lemma process_recipient_render_failure:
  assumes "\<not> renders e r subject body_template"
  shows "\<exists>x. process_recipient self e n subject body_template attachments delay i r st t =
           (Inr (count_failed (row_get_default r ''email'' ''Unknown'') st),
            t @ [Print (processing_line i n (row_get_default r ''email'' ''Unknown'')),
                 Log ERROR (CreateMessageError (row_get r ''email'') x)])"
proof -
  obtain x where
    "create_email_message self e r subject body_template attachments
       (t @ [Print (processing_line i n (row_get_default r ''email'' ''Unknown''))]) =
     (None, (t @ [Print (processing_line i n (row_get_default r ''email'' ''Unknown''))])
            @ [Log ERROR (CreateMessageError (row_get r ''email'') x)])"
    using create_email_message_fails [OF assms] by blast
  then show ?thesis by (auto simp: process_recipient_def Let_def)
qed

text \<open>The loop body when a message is built and the pause, if any, is accepted.\<close>

lemma process_recipient_rendered:
  assumes "renders e r subject body_template" and "i < n \<longrightarrow> 0 \<le> delay"
  shows "\<exists>sent evs. process_recipient self e n subject body_template attachments delay i r st t =
           (Inr (if sent then count_success st
                 else count_failed (row_get_default r ''email'' ''Unknown'') st),
            t @ Print (processing_line i n (row_get_default r ''email'' ''Unknown'')) # evs
              @ (if i < n then [Sleep delay] else []))"
proof -
  define addr where "addr = row_get_default r ''email'' ''Unknown''"
  obtain msg evs1 where c:
    "create_email_message self e r subject body_template attachments
       (t @ [Print (processing_line i n addr)]) =
     (Some msg, (t @ [Print (processing_line i n addr)]) @ evs1)"
    using create_email_message_renders [OF assms(1)] by blast
  obtain sent evs2 where s:
    "send_email_with_retry self e msg addr 3 ((t @ [Print (processing_line i n addr)]) @ evs1) =
     (Inr sent, ((t @ [Print (processing_line i n addr)]) @ evs1) @ evs2)"
    using send_email_with_retry_returns by blast
  have "process_recipient self e n subject body_template attachments delay i r st t =
           (Inr (if sent then count_success st else count_failed addr st),
            t @ Print (processing_line i n addr) # (evs1 @ evs2)
              @ (if i < n then [Sleep delay] else []))"
    using c s assms(2)
    by (simp add: process_recipient_def Let_def addr_def [symmetric] time_sleep_nonneg)
  then show ?thesis unfolding addr_def by blast
qed


text \<open>
  The loop body when a message is built, whatever the pause: the session results are
  counted, and a negative pause raises after that when the recipient is not the last.
\<close>

lemma process_recipient_rendered_any:
  assumes "renders e r subject body_template"
  shows "\<exists>sent evs. process_recipient self e n subject body_template attachments delay i r st t =
           (if i < n \<and> delay < 0 then
              (Inl ValueError,
               t @ Print (processing_line i n (row_get_default r ''email'' ''Unknown'')) # evs)
            else
              (Inr (if sent then count_success st
                    else count_failed (row_get_default r ''email'' ''Unknown'') st),
               t @ Print (processing_line i n (row_get_default r ''email'' ''Unknown'')) # evs
                 @ (if i < n then [Sleep delay] else [])))"
proof -
  define addr where "addr = row_get_default r ''email'' ''Unknown''"
  obtain msg evs1 where c:
    "create_email_message self e r subject body_template attachments
       (t @ [Print (processing_line i n addr)]) =
     (Some msg, (t @ [Print (processing_line i n addr)]) @ evs1)"
    using create_email_message_renders [OF assms] by blast
  obtain sent evs2 where s:
    "send_email_with_retry self e msg addr 3 ((t @ [Print (processing_line i n addr)]) @ evs1) =
     (Inr sent, ((t @ [Print (processing_line i n addr)]) @ evs1) @ evs2)"
    using send_email_with_retry_returns by blast
  have "process_recipient self e n subject body_template attachments delay i r st t =
           (if i < n \<and> delay < 0 then
              (Inl ValueError, t @ Print (processing_line i n addr) # (evs1 @ evs2))
            else
              (Inr (if sent then count_success st else count_failed addr st),
               t @ Print (processing_line i n addr) # (evs1 @ evs2)
                 @ (if i < n then [Sleep delay] else [])))"
    using c s
    by (simp add: process_recipient_def Let_def addr_def [symmetric] time_sleep_def)
  then show ?thesis unfolding addr_def by blast
qed

text \<open>Every iteration starts with its progress line and only extends the trace.\<close>

lemma process_recipient_starts:
  "\<exists>res more. process_recipient self e n subject body_template attachments delay i r st t =
     (res, t @ Print (processing_line i n (row_get_default r ''email'' ''Unknown'')) # more)"
proof (cases "renders e r subject body_template")
  case True
  from process_recipient_rendered_any [OF True, of self n attachments delay i st t]
  obtain sent evs where
    "process_recipient self e n subject body_template attachments delay i r st t =
           (if i < n \<and> delay < 0 then
              (Inl ValueError,
               t @ Print (processing_line i n (row_get_default r ''email'' ''Unknown'')) # evs)
            else
              (Inr (if sent then count_success st
                    else count_failed (row_get_default r ''email'' ''Unknown'') st),
               t @ Print (processing_line i n (row_get_default r ''email'' ''Unknown'')) # evs
                 @ (if i < n then [Sleep delay] else [])))"
    by blast
  then show ?thesis by (cases "i < n \<and> delay < 0") auto
next
  case False
  from process_recipient_render_failure [OF False, of self n attachments delay i st t]
  show ?thesis by auto
qed

text \<open>
  The outcome of one iteration: either the negative pause raised, or exactly one of the
  two counters went up by one.
\<close>

lemma process_recipient_cases:
  "(\<exists>t'. process_recipient self e n subject body_template attachments delay i r st t =
            (Inl ValueError, t') \<and> delay < 0)
   \<or> (\<exists>sent t'. process_recipient self e n subject body_template attachments delay i r st t =
         (Inr (if sent then count_success st
               else count_failed (row_get_default r ''email'' ''Unknown'') st), t'))"
proof (cases "renders e r subject body_template")
  case True
  from process_recipient_rendered_any [OF True, of self n attachments delay i st t]
  obtain sent evs where
    "process_recipient self e n subject body_template attachments delay i r st t =
           (if i < n \<and> delay < 0 then
              (Inl ValueError,
               t @ Print (processing_line i n (row_get_default r ''email'' ''Unknown'')) # evs)
            else
              (Inr (if sent then count_success st
                    else count_failed (row_get_default r ''email'' ''Unknown'') st),
               t @ Print (processing_line i n (row_get_default r ''email'' ''Unknown'')) # evs
                 @ (if i < n then [Sleep delay] else [])))"
    by blast
  then show ?thesis by (cases "i < n \<and> delay < 0") auto
next
  case False
  from process_recipient_render_failure [OF False, of self n attachments delay i st t]
  obtain x where
    "process_recipient self e n subject body_template attachments delay i r st t =
       (Inr (count_failed (row_get_default r ''email'' ''Unknown'') st),
        t @ [Print (processing_line i n (row_get_default r ''email'' ''Unknown'')),
             Log ERROR (CreateMessageError (row_get r ''email'') x)])"
    by blast
  then have "\<exists>t'. process_recipient self e n subject body_template attachments delay i r st t =
       (Inr (if False then count_success st
             else count_failed (row_get_default r ''email'' ''Unknown'') st), t')"
    by simp
  then show ?thesis by blast
qed

lemma accounted_step:
  "accounted st 1 (if sent then count_success st else count_failed a st)"
  by (simp add: accounted_def count_success_def count_failed_def)

lemma accounted_trans:
  "accounted st (Suc 0) st1 \<Longrightarrow> accounted st1 k st2 \<Longrightarrow> accounted st (Suc k) st2"
  by (simp add: accounted_def)

lemma bulk_loop_accounted:
  "case bulk_loop self e n subject body_template attachments delay i rs st t of
     (Inl x, t') \<Rightarrow> delay < 0
   | (Inr st', t') \<Rightarrow> accounted st (length rs) st'"
proof (induction rs arbitrary: i st t)
  case Nil
  show ?case by (simp add: accounted_def)
next
  case (Cons r rs)
  from process_recipient_cases [of self e n subject body_template attachments delay i r st t]
  show ?case
  proof
    assume "\<exists>t'. process_recipient self e n subject body_template attachments delay i r st t =
            (Inl ValueError, t') \<and> delay < 0"
    then show ?thesis by auto
  next
    assume "\<exists>sent t'. process_recipient self e n subject body_template attachments delay i r st t =
         (Inr (if sent then count_success st
               else count_failed (row_get_default r ''email'' ''Unknown'') st), t')"
    then obtain sent t' where p:
      "process_recipient self e n subject body_template attachments delay i r st t =
         (Inr (if sent then count_success st
               else count_failed (row_get_default r ''email'' ''Unknown'') st), t')"
      by blast
    define st1 where
      "st1 = (if sent then count_success st
              else count_failed (row_get_default r ''email'' ''Unknown'') st)"
    have a1: "accounted st 1 st1" unfolding st1_def by (rule accounted_step)
    from Cons.IH [where i = "i + 1" and st = st1 and t = t'] a1 p show ?thesis
      by (auto simp: st1_def [symmetric] split: prod.splits sum.splits
               intro: accounted_trans [of st st1])
  qed
qed

text \<open>With an accepted pause the loop returns and only extends the trace.\<close>

lemma bulk_loop_returns:
  assumes "0 \<le> delay"
  shows "\<exists>st' evs. bulk_loop self e n subject body_template attachments delay i rs st t =
           (Inr st', t @ evs)"
proof (induction rs arbitrary: i st t)
  case Nil
  have "bulk_loop self e n subject body_template attachments delay i [] st t = (Inr st, t @ [])"
    by simp
  then show ?case by blast
next
  case (Cons r rs)
  obtain res more where p:
    "process_recipient self e n subject body_template attachments delay i r st t =
       (res, t @ Print (processing_line i n (row_get_default r ''email'' ''Unknown'')) # more)"
    using process_recipient_starts by blast
  from process_recipient_cases [of self e n subject body_template attachments delay i r st t]
    assms p
  obtain st1 where res: "res = Inr st1" by auto
  from Cons.IH [of "i + 1" st1
      "t @ Print (processing_line i n (row_get_default r ''email'' ''Unknown'')) # more"]
  obtain st' evs where
    "bulk_loop self e n subject body_template attachments delay (i + 1) rs st1
       (t @ Print (processing_line i n (row_get_default r ''email'' ''Unknown'')) # more) =
     (Inr st',
      (t @ Print (processing_line i n (row_get_default r ''email'' ''Unknown'')) # more) @ evs)"
    by blast
  with p res have
    "bulk_loop self e n subject body_template attachments delay i (r # rs) st t =
     (Inr st',
      t @ (Print (processing_line i n (row_get_default r ''email'' ''Unknown'')) # more @ evs))"
    by simp
  then show ?case by blast
qed

lemma send_bulk_emails_returns:
  assumes "0 \<le> delay"
  shows "\<exists>st evs. send_bulk_emails self e recipients subject body_template attachments delay t =
           (Inr st, t @ evs)"
proof -
  obtain st evs where
    "bulk_loop self e (length recipients) subject body_template attachments delay 1 recipients
       \<lparr>total = int (length recipients), success = 0, failed = 0, failed_recipients = []\<rparr>
       (t @ map Print banner) = (Inr st, (t @ map Print banner) @ evs)"
    using bulk_loop_returns [OF assms] by blast
  then have "send_bulk_emails self e recipients subject body_template attachments delay t =
           (Inr st, t @ (map Print banner @ evs))"
    by (simp add: send_bulk_emails_def)
  then show ?thesis by blast
qed

text \<open>
  Claim C1. \<^verbatim>\<open>send_bulk_emails\<close> returns its statistics unless
  \<^verbatim>\<open>time.sleep\<close> rejects a negative \<^verbatim>\<open>delay\<close>, and the statistics it returns
  satisfy \<open>total = len(recipients)\<close>, \<open>success + failed = total\<close> and
  \<open>len(failed_recipients) = failed\<close>. Each iteration of its loop that completes leaves
  the total as it was and does exactly one of two things: it adds one to \<open>success\<close>
  and changes nothing else, or it adds one to \<open>failed\<close> and appends the recipient's
  address to \<open>failed_recipients\<close>.
\<close>

theorem send_bulk_emails_accounting:
  "(case send_bulk_emails self e recipients subject body_template attachments delay t of
      (Inl x, t') \<Rightarrow> delay < 0
    | (Inr st, t') \<Rightarrow>
        total st = int (length recipients)
        \<and> success st + failed st = total st
        \<and> int (length (failed_recipients st)) = failed st)
   \<and> (case process_recipient self e n subject body_template attachments delay i r st0 t of
        (Inl x, t') \<Rightarrow> delay < 0
      | (Inr st', t') \<Rightarrow>
          total st' = total st0
          \<and> (success st' = success st0 + 1 \<and> failed st' = failed st0
                \<and> failed_recipients st' = failed_recipients st0
              \<or> success st' = success st0 \<and> failed st' = failed st0 + 1
                \<and> failed_recipients st' =
                    failed_recipients st0 @ [row_get_default r ''email'' ''Unknown'']))"
proof
  define init where
    "init = \<lparr>total = int (length recipients), success = 0, failed = 0, failed_recipients = []\<rparr>"
  from bulk_loop_accounted
    [where self = self and e = e and n = "length recipients" and subject = subject
       and body_template = body_template and attachments = attachments and delay = delay
       and i = 1 and rs = recipients and st = init and t = "t @ map Print banner"]
  show "case send_bulk_emails self e recipients subject body_template attachments delay t of
      (Inl x, t') \<Rightarrow> delay < 0
    | (Inr st, t') \<Rightarrow>
        total st = int (length recipients)
        \<and> success st + failed st = total st
        \<and> int (length (failed_recipients st)) = failed st"
    by (auto simp: send_bulk_emails_def init_def [symmetric] accounted_def
             split: prod.splits sum.splits)
       (simp_all add: init_def)
next
  from process_recipient_cases [of self e n subject body_template attachments delay i r st0 t]
  show "case process_recipient self e n subject body_template attachments delay i r st0 t of
        (Inl x, t') \<Rightarrow> delay < 0
      | (Inr st', t') \<Rightarrow>
          total st' = total st0
          \<and> (success st' = success st0 + 1 \<and> failed st' = failed st0
                \<and> failed_recipients st' = failed_recipients st0
              \<or> success st' = success st0 \<and> failed st' = failed st0 + 1
                \<and> failed_recipients st' =
                    failed_recipients st0 @ [row_get_default r ''email'' ''Unknown''])"
    by (auto simp: count_success_def count_failed_def)
qed

text \<open>
  The theorem on the specification's scenario: two recipients, the server refuses the
  first one. The run returns total 2, success 1, failed 1 and the refused address.
\<close>

theorem send_bulk_emails_accounting_witness:
  "fst (send_bulk_emails sample_bot (sample_env (refuses ''a@x.com''))
          [person ''a@x.com'' ''A'', person ''c@x.com'' ''C'']
          ''Hi {name}'' ''Hello {name}!'' None 2 [])
     = Inr \<lparr>total = 2, success = 1, failed = 1, failed_recipients = [Some ''a@x.com'']\<rparr>
   \<and> (1::int) + 1 = 2 \<and> int (length [Some ''a@x.com'']) = 1"
proof -
  have run: "fst (send_bulk_emails sample_bot (sample_env (refuses ''a@x.com''))
          [person ''a@x.com'' ''A'', person ''c@x.com'' ''C'']
          ''Hi {name}'' ''Hello {name}!'' None 2 [])
     = Inr \<lparr>total = 2, success = 1, failed = 1, failed_recipients = [Some ''a@x.com'']\<rparr>"
    by code_simp
  from send_bulk_emails_accounting
    [where self = sample_bot and e = "sample_env (refuses ''a@x.com'')"
       and recipients = "[person ''a@x.com'' ''A'', person ''c@x.com'' ''C'']"
       and subject = "''Hi {name}''" and body_template = "''Hello {name}!''"
       and attachments = None and delay = 2 and t = "[]"] run
  show ?thesis by simp
qed

text \<open>The loop over a list in two parts.\<close>

lemma bulk_loop_append:
  "bulk_loop self e n subject body_template attachments delay i (xs @ ys) st t =
     (case bulk_loop self e n subject body_template attachments delay i xs st t of
        (Inl x, t') \<Rightarrow> (Inl x, t')
      | (Inr st', t') \<Rightarrow>
          bulk_loop self e n subject body_template attachments delay (i + length xs) ys st' t')"
  by (induction xs arbitrary: i st t) (auto split: prod.splits sum.splits)

lemma bulk_loop_cons_starts:
  assumes "0 \<le> delay"
  shows "\<exists>st' more. bulk_loop self e n subject body_template attachments delay i (r # rs) st t =
           (Inr st', t @ Print (processing_line i n (row_get_default r ''email'' ''Unknown''))
                      # more)"
proof -
  obtain res more where p:
    "process_recipient self e n subject body_template attachments delay i r st t =
       (res, t @ Print (processing_line i n (row_get_default r ''email'' ''Unknown'')) # more)"
    using process_recipient_starts by blast
  from process_recipient_cases [of self e n subject body_template attachments delay i r st t]
    assms p
  obtain st1 where res: "res = Inr st1" by auto
  obtain st' evs where
    "bulk_loop self e n subject body_template attachments delay (i + 1) rs st1
       (t @ Print (processing_line i n (row_get_default r ''email'' ''Unknown'')) # more) =
     (Inr st',
      (t @ Print (processing_line i n (row_get_default r ''email'' ''Unknown'')) # more) @ evs)"
    using bulk_loop_returns [OF assms] by blast
  with p res have
    "bulk_loop self e n subject body_template attachments delay i (r # rs) st t =
     (Inr st',
      t @ Print (processing_line i n (row_get_default r ''email'' ''Unknown'')) # (more @ evs))"
    by simp
  then show ?thesis by blast
qed

text \<open>
  One iteration for a recipient that is not the last, with an accepted pause: the events
  after the progress line end with the pause when a message was built, and hold no
  session and no pause when none was.
\<close>

lemma process_recipient_not_last:
  assumes "0 \<le> delay" and "i < n"
  shows "\<exists>st' evs. process_recipient self e n subject body_template attachments delay i r st t =
           (Inr st', t @ Print (processing_line i n (row_get_default r ''email'' ''Unknown''))
                      # evs)
         \<and> (if renders e r subject body_template then \<exists>evs'. evs = evs' @ [Sleep delay]
            else timing evs = [])"
proof (cases "renders e r subject body_template")
  case True
  from assms have "i < n \<longrightarrow> 0 \<le> delay" by simp
  from process_recipient_rendered [OF True this, of self attachments st t]
  obtain sent evs where
    "process_recipient self e n subject body_template attachments delay i r st t =
       (Inr (if sent then count_success st
             else count_failed (row_get_default r ''email'' ''Unknown'') st),
        t @ Print (processing_line i n (row_get_default r ''email'' ''Unknown'')) # evs
          @ (if i < n then [Sleep delay] else []))"
    by blast
  with assms(2) have
    "process_recipient self e n subject body_template attachments delay i r st t =
       (Inr (if sent then count_success st
             else count_failed (row_get_default r ''email'' ''Unknown'') st),
        t @ Print (processing_line i n (row_get_default r ''email'' ''Unknown''))
          # (evs @ [Sleep delay]))"
    by simp
  with True show ?thesis by auto
next
  case False
  from process_recipient_render_failure [OF False, of self n attachments delay i st t]
  obtain x where
    "process_recipient self e n subject body_template attachments delay i r st t =
       (Inr (count_failed (row_get_default r ''email'' ''Unknown'') st),
        t @ Print (processing_line i n (row_get_default r ''email'' ''Unknown''))
          # [Log ERROR (CreateMessageError (row_get r ''email'') x)])"
    by auto
  moreover have "timing [Log ERROR (CreateMessageError (row_get r ''email'') x)] = []"
    by simp
  ultimately show ?thesis using False by auto
qed

text \<open>
  Claim C6. When no message can be built for a recipient, the iteration counts the
  recipient as failed and appends its address (\<^verbatim>\<open>recipient.get('email', 'Unknown')\<close>)
  to the failed list; it adds to the trace its progress line and the error record of
  \<^verbatim>\<open>create_email_message\<close> only, so no SMTP session is opened and no pause is made;
  and the loop goes on with the next recipient from there. No failure for one recipient
  ends the batch. Whenever \<^verbatim>\<open>delay\<close> is not negative, every iteration returns
  (whether the message could not be built, was refused, failed after the retries or was
  sent) and the loop goes on with the rest of the recipients from the state it left; and
  for every list of recipients and every behaviour of the environment,
  \<^verbatim>\<open>send_bulk_emails\<close> returns statistics that account for every recipient, and
  its trace holds the progress line of every recipient of the input, whatever happened
  to the recipients before it.
\<close>

theorem send_bulk_emails_render_failure:
  "(\<not> renders e r subject body_template \<longrightarrow>
      (\<exists>x. process_recipient self e n subject body_template attachments delay i r st t =
             (Inr (count_failed (row_get_default r ''email'' ''Unknown'') st),
              t @ [Print (processing_line i n (row_get_default r ''email'' ''Unknown'')),
                   Log ERROR (CreateMessageError (row_get r ''email'') x)])
           \<and> bulk_loop self e n subject body_template attachments delay i (r # rest) st t =
               bulk_loop self e n subject body_template attachments delay (i + 1) rest
                 (count_failed (row_get_default r ''email'' ''Unknown'') st)
                 (t @ [Print (processing_line i n (row_get_default r ''email'' ''Unknown'')),
                       Log ERROR (CreateMessageError (row_get r ''email'') x)])))
   \<and> (0 \<le> delay \<longrightarrow>
        (\<exists>st1 t1.
           process_recipient self e n subject body_template attachments delay i r st t =
             (Inr st1, t1)
           \<and> bulk_loop self e n subject body_template attachments delay i (r # rest) st t =
               bulk_loop self e n subject body_template attachments delay (i + 1) rest st1 t1))
   \<and> (0 \<le> delay \<longrightarrow>
        (\<exists>stats before after.
           send_bulk_emails self e (pre @ r # post) subject body_template attachments delay t0 =
             (Inr stats,
              t0 @ before
                @ Print (processing_line (length pre + 1) (length (pre @ r # post))
                           (row_get_default r ''email'' ''Unknown'')) # after)
           \<and> total stats = int (length (pre @ r # post))
           \<and> success stats + failed stats = int (length (pre @ r # post))))"
proof (intro conjI impI)
  assume f: "\<not> renders e r subject body_template"
  from process_recipient_render_failure [OF f, of self n attachments delay i st t]
  obtain x where p:
    "process_recipient self e n subject body_template attachments delay i r st t =
       (Inr (count_failed (row_get_default r ''email'' ''Unknown'') st),
        t @ [Print (processing_line i n (row_get_default r ''email'' ''Unknown'')),
             Log ERROR (CreateMessageError (row_get r ''email'') x)])"
    by blast
  then have
    "bulk_loop self e n subject body_template attachments delay i (r # rest) st t =
       bulk_loop self e n subject body_template attachments delay (i + 1) rest
         (count_failed (row_get_default r ''email'' ''Unknown'') st)
         (t @ [Print (processing_line i n (row_get_default r ''email'' ''Unknown'')),
               Log ERROR (CreateMessageError (row_get r ''email'') x)])"
    by simp
  with p show "\<exists>x. process_recipient self e n subject body_template attachments delay i r st t =
             (Inr (count_failed (row_get_default r ''email'' ''Unknown'') st),
              t @ [Print (processing_line i n (row_get_default r ''email'' ''Unknown'')),
                   Log ERROR (CreateMessageError (row_get r ''email'') x)])
           \<and> bulk_loop self e n subject body_template attachments delay i (r # rest) st t =
               bulk_loop self e n subject body_template attachments delay (i + 1) rest
                 (count_failed (row_get_default r ''email'' ''Unknown'') st)
                 (t @ [Print (processing_line i n (row_get_default r ''email'' ''Unknown'')),
                       Log ERROR (CreateMessageError (row_get r ''email'') x)])"
    by blast
next
  assume d: "0 \<le> delay"
  obtain res t1 where p:
    "process_recipient self e n subject body_template attachments delay i r st t = (res, t1)"
    by (cases "process_recipient self e n subject body_template attachments delay i r st t")
  from process_recipient_cases [of self e n subject body_template attachments delay i r st t]
    d p
  obtain st1 where res: "res = Inr st1" by auto
  from p res have
    "bulk_loop self e n subject body_template attachments delay i (r # rest) st t =
       bulk_loop self e n subject body_template attachments delay (i + 1) rest st1 t1"
    by simp
  with p res show "\<exists>st1 t1.
           process_recipient self e n subject body_template attachments delay i r st t =
             (Inr st1, t1)
           \<and> bulk_loop self e n subject body_template attachments delay i (r # rest) st t =
               bulk_loop self e n subject body_template attachments delay (i + 1) rest st1 t1"
    by blast
next
  assume d: "0 \<le> delay"
  define n' where "n' = length (pre @ r # post)"
  define st0 where
    "st0 = \<lparr>total = int n', success = 0, failed = 0, failed_recipients = []\<rparr>"
  obtain st1 ev1 where pre:
    "bulk_loop self e n' subject body_template attachments delay 1 pre st0
       (t0 @ map Print banner) = (Inr st1, (t0 @ map Print banner) @ ev1)"
    using bulk_loop_returns [OF d] by blast
  obtain stats more where cur:
    "bulk_loop self e n' subject body_template attachments delay (length pre + 1) (r # post)
       st1 ((t0 @ map Print banner) @ ev1) =
     (Inr stats,
      ((t0 @ map Print banner) @ ev1)
        @ Print (processing_line (length pre + 1) n'
                   (row_get_default r ''email'' ''Unknown'')) # more)"
    using bulk_loop_cons_starts [OF d] by blast
  have whole:
    "bulk_loop self e n' subject body_template attachments delay 1 (pre @ r # post) st0
       (t0 @ map Print banner) =
     (Inr stats,
      t0 @ (map Print banner @ ev1)
        @ Print (processing_line (length pre + 1) n'
                   (row_get_default r ''email'' ''Unknown'')) # more)"
    using pre cur by (simp add: bulk_loop_append)
  from bulk_loop_accounted
    [where self = self and e = e and n = n' and subject = subject
       and body_template = body_template and attachments = attachments and delay = delay
       and i = 1 and rs = "pre @ r # post" and st = st0 and t = "t0 @ map Print banner"]
    whole
  have acc: "accounted st0 (length (pre @ r # post)) stats" by simp
  then have "total stats = int n'" "success stats + failed stats = int n'"
    by (simp_all add: accounted_def st0_def n'_def)
  with whole show "\<exists>stats before after.
           send_bulk_emails self e (pre @ r # post) subject body_template attachments delay t0 =
             (Inr stats,
              t0 @ before
                @ Print (processing_line (length pre + 1) (length (pre @ r # post))
                           (row_get_default r ''email'' ''Unknown'')) # after)
           \<and> total stats = int (length (pre @ r # post))
           \<and> success stats + failed stats = int (length (pre @ r # post))"
    unfolding send_bulk_emails_def n'_def [symmetric] st0_def [symmetric] by blast
qed

text \<open>
  The theorem on a batch of three: the first recipient has no column \<^verbatim>\<open>name\<close>, the
  server refuses the second, the third is sent. Each of the first two is recorded as
  failed, no session is opened for the first, and the batch goes on to the end.
\<close>

theorem send_bulk_emails_render_failure_witness:
  "\<not> renders (sample_env (refuses ''b@x.com'')) (email_only ''a@x.com'') ''Hi {name}''
       ''Hello {name}!''
   \<and> (0::rat) \<le> 2
   \<and> send_bulk_emails sample_bot (sample_env (refuses ''b@x.com''))
        [email_only ''a@x.com'', person ''b@x.com'' ''B'', person ''c@x.com'' ''C'']
        ''Hi {name}'' ''Hello {name}!'' None 2 [] =
      (Inr \<lparr>total = 3, success = 1, failed = 2,
             failed_recipients = [Some ''a@x.com'', Some ''b@x.com'']\<rparr>,
       map Print banner @
       [Print (processing_line 1 3 (Some ''a@x.com'')),
        Log ERROR (CreateMessageError (Some ''a@x.com'') (KeyError ''name'')),
        Print (processing_line 2 3 (Some ''b@x.com'')),
        SmtpAttempt \<lparr>msg_from = Some ''me@x.com'', msg_to = Some ''b@x.com'',
                      msg_subject = ''Hi B'', msg_body = ''Hello B!'', msg_parts = []\<rparr>,
        Log ERROR (RecipientRefused (Some ''b@x.com'')),
        Sleep 2,
        Print (processing_line 3 3 (Some ''c@x.com'')),
        SmtpAttempt \<lparr>msg_from = Some ''me@x.com'', msg_to = Some ''c@x.com'',
                      msg_subject = ''Hi C'', msg_body = ''Hello C!'', msg_parts = []\<rparr>,
        Log INFO (SentOk (Some ''c@x.com''))])"
proof -
  have nr: "\<not> renders (sample_env (refuses ''b@x.com'')) (email_only ''a@x.com'') ''Hi {name}''
              ''Hello {name}!''"
    by code_simp
  have run: "send_bulk_emails sample_bot (sample_env (refuses ''b@x.com''))
        [email_only ''a@x.com'', person ''b@x.com'' ''B'', person ''c@x.com'' ''C'']
        ''Hi {name}'' ''Hello {name}!'' None 2 [] =
      (Inr \<lparr>total = 3, success = 1, failed = 2,
             failed_recipients = [Some ''a@x.com'', Some ''b@x.com'']\<rparr>,
       map Print banner @
       [Print (processing_line 1 3 (Some ''a@x.com'')),
        Log ERROR (CreateMessageError (Some ''a@x.com'') (KeyError ''name'')),
        Print (processing_line 2 3 (Some ''b@x.com'')),
        SmtpAttempt \<lparr>msg_from = Some ''me@x.com'', msg_to = Some ''b@x.com'',
                      msg_subject = ''Hi B'', msg_body = ''Hello B!'', msg_parts = []\<rparr>,
        Log ERROR (RecipientRefused (Some ''b@x.com'')),
        Sleep 2,
        Print (processing_line 3 3 (Some ''c@x.com'')),
        SmtpAttempt \<lparr>msg_from = Some ''me@x.com'', msg_to = Some ''c@x.com'',
                      msg_subject = ''Hi C'', msg_body = ''Hello C!'', msg_parts = []\<rparr>,
        Log INFO (SentOk (Some ''c@x.com''))])"
    by code_simp
  from send_bulk_emails_render_failure
    [where e = "sample_env (refuses ''b@x.com'')" and r = "email_only ''a@x.com''"
       and subject = "''Hi {name}''" and body_template = "''Hello {name}!''"
       and self = sample_bot and delay = 2 and pre = "[]"
       and post = "[person ''b@x.com'' ''B'', person ''c@x.com'' ''C'']"
       and attachments = None and ?t0.0 = "[]"] nr run
  show ?thesis by simp
qed

text \<open>
  Claim C4, as stated, fails: in this run of two recipients with a delay of 2 seconds the
  first recipient has no column \<^verbatim>\<open>name\<close>, no message can be built for it, and
  \<^verbatim>\<open>continue\<close> skips the pause: the progress line of the second recipient follows
  the error record at once, and the trace holds no pause at all.
\<close>

theorem send_bulk_emails_no_pause_after_render_failure:
  "send_bulk_emails sample_bot (sample_env always_sent)
        [email_only ''b@x.com'', person ''c@x.com'' ''C'']
        ''Dear {name}'' ''Hello {name}!'' None 2 [] =
      (Inr \<lparr>total = 2, success = 1, failed = 1, failed_recipients = [Some ''b@x.com'']\<rparr>,
       map Print banner @
       [Print (processing_line 1 2 (Some ''b@x.com'')),
        Log ERROR (CreateMessageError (Some ''b@x.com'') (KeyError ''name'')),
        Print (processing_line 2 2 (Some ''c@x.com'')),
        SmtpAttempt \<lparr>msg_from = Some ''me@x.com'', msg_to = Some ''c@x.com'',
                      msg_subject = ''Dear C'', msg_body = ''Hello C!'', msg_parts = []\<rparr>,
        Log INFO (SentOk (Some ''c@x.com''))])
   \<and> sleeps_of (snd (send_bulk_emails sample_bot (sample_env always_sent)
        [email_only ''b@x.com'', person ''c@x.com'' ''C'']
        ''Dear {name}'' ''Hello {name}!'' None 2 [])) = []"
  by code_simp

text \<open>
  Claim C4, amended. Let \<^verbatim>\<open>delay\<close> be not negative and let a recipient be followed
  by another one in the input. In the trace of \<^verbatim>\<open>send_bulk_emails\<close> the progress
  line of the recipient is followed by its events and then by the progress line of the
  next recipient. When a message was built for the recipient, the last of its events is
  the pause of \<^verbatim>\<open>delay\<close> seconds, whether the message was sent or not; when no
  message could be built, its events hold no session and no pause.
\<close>

theorem send_bulk_emails_pause:
  assumes "0 \<le> delay"
  shows "\<exists>before evs after.
           snd (send_bulk_emails self e (pre @ r # r' # post) subject body_template
                  attachments delay t) =
             before
             @ Print (processing_line (length pre + 1) (length (pre @ r # r' # post))
                        (row_get_default r ''email'' ''Unknown'')) # evs
             @ Print (processing_line (length pre + 2) (length (pre @ r # r' # post))
                        (row_get_default r' ''email'' ''Unknown'')) # after
           \<and> (if renders e r subject body_template then \<exists>evs'. evs = evs' @ [Sleep delay]
              else timing evs = [])"
proof -
  define n where "n = length (pre @ r # r' # post)"
  define st0 where
    "st0 = \<lparr>total = int n, success = 0, failed = 0, failed_recipients = []\<rparr>"
  define t0 where "t0 = t @ map Print banner"
  obtain st1 ev1 where pre:
    "bulk_loop self e n subject body_template attachments delay 1 pre st0 t0 = (Inr st1, t0 @ ev1)"
    using bulk_loop_returns [OF assms] by blast
  have "length pre + 1 < n" by (simp add: n_def)
  from process_recipient_not_last [OF assms this, of self e subject body_template attachments
      r st1 "t0 @ ev1"]
  obtain st2 evs where cur:
    "process_recipient self e n subject body_template attachments delay (length pre + 1) r st1
       (t0 @ ev1) =
     (Inr st2, (t0 @ ev1) @ Print (processing_line (length pre + 1) n
                                     (row_get_default r ''email'' ''Unknown'')) # evs)"
    and pause: "if renders e r subject body_template then \<exists>evs'. evs = evs' @ [Sleep delay]
                else timing evs = []"
    by auto
  define t2 where
    "t2 = (t0 @ ev1) @ Print (processing_line (length pre + 1) n
                                (row_get_default r ''email'' ''Unknown'')) # evs"
  obtain st3 more where nxt:
    "bulk_loop self e n subject body_template attachments delay (length pre + 2) (r' # post)
       st2 t2 =
     (Inr st3, t2 @ Print (processing_line (length pre + 2) n
                             (row_get_default r' ''email'' ''Unknown'')) # more)"
    using bulk_loop_cons_starts [OF assms] by blast
  have "bulk_loop self e n subject body_template attachments delay (length pre + 1)
          (r # r' # post) st1 (t0 @ ev1) =
        (Inr st3, t2 @ Print (processing_line (length pre + 2) n
                             (row_get_default r' ''email'' ''Unknown'')) # more)"
    using cur nxt unfolding t2_def by simp
  then have "bulk_loop self e n subject body_template attachments delay 1
               (pre @ r # r' # post) st0 t0 =
        (Inr st3, t2 @ Print (processing_line (length pre + 2) n
                             (row_get_default r' ''email'' ''Unknown'')) # more)"
    using pre by (simp add: bulk_loop_append)
  then have "snd (send_bulk_emails self e (pre @ r # r' # post) subject body_template
                  attachments delay t) =
        (t0 @ ev1) @ Print (processing_line (length pre + 1) n
                                (row_get_default r ''email'' ''Unknown'')) # evs
          @ Print (processing_line (length pre + 2) n
                             (row_get_default r' ''email'' ''Unknown'')) # more"
    unfolding send_bulk_emails_def n_def [symmetric] st0_def [symmetric] t0_def [symmetric]
    by (simp add: t2_def)
  with pause show ?thesis unfolding n_def by blast
qed

text \<open>
  The theorem on two recipients with a server that refuses the first. The first row is
  the one \<^verbatim>\<open>csv.DictReader\<close> yields for the line \<^verbatim>\<open>c@x.com,Cid,\<close> under the
  header \<^verbatim>\<open>email,name\<close>: it has one surplus value, and a message is built for it.
  The pause of 2 seconds stands between its error record and the progress line of the
  second recipient.
\<close>

theorem send_bulk_emails_pause_witness:
  "(0::rat) \<le> 2
   \<and> renders (sample_env (refuses ''c@x.com'')) (person_with_surplus ''c@x.com'' ''Cid'' [[]])
        ''Hi {name}'' ''Hello {name}!''
   \<and> (\<exists>before evs after.
         snd (send_bulk_emails sample_bot (sample_env (refuses ''c@x.com''))
                ([] @ person_with_surplus ''c@x.com'' ''Cid'' [[]] # person ''a@x.com'' ''A'' # [])
                ''Hi {name}'' ''Hello {name}!'' None 2 []) =
           before @ Print (processing_line 1 2 (Some ''c@x.com'')) # (evs @ [Sleep 2])
           @ Print (processing_line 2 2 (Some ''a@x.com'')) # after)
   \<and> timing (snd (send_bulk_emails sample_bot (sample_env (refuses ''c@x.com''))
                [person_with_surplus ''c@x.com'' ''Cid'' [[]], person ''a@x.com'' ''A'']
                ''Hi {name}'' ''Hello {name}!'' None 2 [])) =
       [SmtpAttempt \<lparr>msg_from = Some ''me@x.com'', msg_to = Some ''c@x.com'',
                      msg_subject = ''Hi Cid'', msg_body = ''Hello Cid!'', msg_parts = []\<rparr>,
        Sleep 2,
        SmtpAttempt \<lparr>msg_from = Some ''me@x.com'', msg_to = Some ''a@x.com'',
                      msg_subject = ''Hi A'', msg_body = ''Hello A!'', msg_parts = []\<rparr>]"
proof -
  have rn: "renders (sample_env (refuses ''c@x.com''))
              (person_with_surplus ''c@x.com'' ''Cid'' [[]]) ''Hi {name}'' ''Hello {name}!''"
    by code_simp
  have a1: "row_get_default (person_with_surplus ''c@x.com'' ''Cid'' [[]]) ''email'' ''Unknown''
              = Some ''c@x.com''"
    and a2: "row_get_default (person ''a@x.com'' ''A'') ''email'' ''Unknown'' = Some ''a@x.com''"
    by (simp_all add: row_get_default_def person_def person_with_surplus_def)
  have tm: "timing (snd (send_bulk_emails sample_bot (sample_env (refuses ''c@x.com''))
                [person_with_surplus ''c@x.com'' ''Cid'' [[]], person ''a@x.com'' ''A'']
                ''Hi {name}'' ''Hello {name}!'' None 2 [])) =
       [SmtpAttempt \<lparr>msg_from = Some ''me@x.com'', msg_to = Some ''c@x.com'',
                      msg_subject = ''Hi Cid'', msg_body = ''Hello Cid!'', msg_parts = []\<rparr>,
        Sleep 2,
        SmtpAttempt \<lparr>msg_from = Some ''me@x.com'', msg_to = Some ''a@x.com'',
                      msg_subject = ''Hi A'', msg_body = ''Hello A!'', msg_parts = []\<rparr>]"
    by code_simp
  have d: "(0::rat) \<le> 2" by simp
  from send_bulk_emails_pause [OF d, of sample_bot "sample_env (refuses ''c@x.com'')" "[]"
      "person_with_surplus ''c@x.com'' ''Cid'' [[]]" "person ''a@x.com'' ''A''" "[]"
      "''Hi {name}''" "''Hello {name}!''" None "[]"] rn
  obtain before evs after where
    "snd (send_bulk_emails sample_bot (sample_env (refuses ''c@x.com''))
                ([] @ person_with_surplus ''c@x.com'' ''Cid'' [[]] # person ''a@x.com'' ''A'' # [])
                ''Hi {name}'' ''Hello {name}!'' None 2 []) =
           before @ Print (processing_line 1 2 (Some ''c@x.com'')) # (evs @ [Sleep 2])
           @ Print (processing_line 2 2 (Some ''a@x.com'')) # after"
    by (auto simp: a1 a2 numeral_2_eq_2)
  then have "\<exists>before evs after.
         snd (send_bulk_emails sample_bot (sample_env (refuses ''c@x.com''))
                ([] @ person_with_surplus ''c@x.com'' ''Cid'' [[]] # person ''a@x.com'' ''A'' # [])
                ''Hi {name}'' ''Hello {name}!'' None 2 []) =
           before @ Print (processing_line 1 2 (Some ''c@x.com'')) # (evs @ [Sleep 2])
           @ Print (processing_line 2 2 (Some ''a@x.com'')) # after"
    by blast
  with d rn tm show ?thesis by simp
qed

section \<open>Properties of the report\<close>

lemma round_half_even_near: "\<bar>of_int (round_half_even x) - x\<bar> \<le> 1 / 2"
proof -
  define d where "d = x - of_int \<lfloor>x\<rfloor>"
  have d: "0 \<le> d" "d < 1" unfolding d_def by linarith+
  have x: "x = of_int \<lfloor>x\<rfloor> + d" by (simp add: d_def)
  show ?thesis
    unfolding round_half_even_def Let_def d_def [symmetric]
    using d by (subst (1 2 3 4) x) (auto simp: abs_if)
qed

lemma round_half_even_nonneg: "0 \<le> x \<Longrightarrow> 0 \<le> round_half_even x"
  by (auto simp: round_half_even_def Let_def)

lemma tenths_near: "\<bar>of_nat (tenths x) / 10 - \<bar>x\<bar>\<bar> \<le> 1 / 20"
proof -
  have "0 \<le> round_half_even (\<bar>x\<bar> * 10)"
    by (rule round_half_even_nonneg) simp
  then have "(of_nat (tenths x) :: rat) = of_int (round_half_even (\<bar>x\<bar> * 10))"
    by (simp add: tenths_def)
  moreover have "\<bar>of_int (round_half_even (\<bar>x\<bar> * 10)) - \<bar>x\<bar> * 10\<bar> \<le> 1 / 2"
    by (rule round_half_even_near)
  ultimately have "\<bar>of_nat (tenths x) - \<bar>x\<bar> * 10\<bar> \<le> 1 / 2" by simp
  then show ?thesis by (simp add: abs_le_iff field_simps)
qed

lemma success_rate_value:
  "success_rate e st =
     Inr (if 0 < total st
          then py_float_mul e (float_round e (of_int (success st) / of_int (total st))) 100
          else 0)"
  by (simp add: success_rate_def py_truediv_def)

lemma format_1f_zero: "format_1f 0 = ''0.0''"
  by (simp add: format_1f_def tenths_def round_half_even_def digit_char_def)

text \<open>
  Claim C8. For every statistics value \<^verbatim>\<open>generate_report\<close> returns without raising:
  the division is evaluated only when \<open>total > 0\<close>, so \<^verbatim>\<open>ZeroDivisionError\<close>
  cannot occur. The seventh line of the report is \<^verbatim>\<open>Success Rate: \<close>, the rate in
  the format \<^verbatim>\<open>.1f\<close> and a percent sign, where the rate is
  \<open>success / total * 100\<close> in binary64 arithmetic when \<open>total > 0\<close> and \<open>0\<close>
  otherwise; the numeral printed is within one twentieth of that value (one decimal
  place, rounded to nearest); and for \<open>total = 0\<close> the line is
  \<^verbatim>\<open>Success Rate: 0.0%\<close>.
\<close>

theorem generate_report_success_rate:
  "\<exists>ls t' rate.
     report_lines e st = Inr ls
     \<and> generate_report e st output_file t = (Inr (), t @ Print (join_lines ls) # t')
     \<and> success_rate e st = Inr rate
     \<and> rate = (if 0 < total st
                then float_round e
                       (float_round e (of_int (success st) / of_int (total st)) * 100)
                else 0)
     \<and> ls ! 6 = ''Success Rate: '' @ format_1f rate @ ''%''
     \<and> format_1f rate =
          (if rate < 0 then ''-'' else []) @ str_nat (tenths rate div 10) @ ''.''
            @ str_nat (tenths rate mod 10)
     \<and> \<bar>of_nat (tenths rate) / 10 - \<bar>rate\<bar>\<bar> \<le> 1 / 20
     \<and> (total st = 0 \<longrightarrow> ls ! 6 = ''Success Rate: 0.0%'')"
proof -
  define rate where
    "rate = (if 0 < total st
             then float_round e (float_round e (of_int (success st) / of_int (total st)) * 100)
             else 0)"
  have sr: "success_rate e st = Inr rate"
    by (simp add: success_rate_value rate_def py_float_mul_def)
  obtain ls where ls: "report_lines e st = Inr ls"
    and l6: "ls ! 6 = ''Success Rate: '' @ format_1f rate @ ''%''"
    by (simp add: report_lines_def sr)
  have "\<exists>t'. generate_report e st output_file t = (Inr (), t @ Print (join_lines ls) # t')"
    by (cases output_file; cases "report_open e (the output_file)")
       (simp_all add: generate_report_def ls Let_def)
  then obtain t' where
    g: "generate_report e st output_file t = (Inr (), t @ Print (join_lines ls) # t')"
    by blast
  have z: "total st = 0 \<longrightarrow> ls ! 6 = ''Success Rate: 0.0%''"
    by (simp add: l6 rate_def format_1f_zero)
  from ls g sr l6 z tenths_near [of rate] show ?thesis
    unfolding rate_def [symmetric] by (auto simp: format_1f_def)
qed

text \<open>
  The theorem at empty statistics, and at two successes out of three in exact
  arithmetic: \<^verbatim>\<open>0.0%\<close> and \<^verbatim>\<open>66.7%\<close>.
\<close>

theorem generate_report_success_rate_witness:
  "generate_report (sample_env always_sent)
       \<lparr>total = 0, success = 0, failed = 0, failed_recipients = []\<rparr> None [] =
     (Inr (), [Print (join_lines
                 [CHR 0x0A # replicate 50 (CHR ''=''), ''EMAIL SEND REPORT'',
                  replicate 50 (CHR ''=''), ''Total Recipients: 0'', ''Successfully Sent: 0'',
                  ''Failed: 0'', ''Success Rate: 0.0%''])])
   \<and> (\<exists>ls. report_lines (sample_env always_sent)
               \<lparr>total = 3, success = 2, failed = 1, failed_recipients = [Some ''a@x.com'']\<rparr>
             = Inr ls \<and> ls ! 6 = ''Success Rate: 66.7%'')"
proof -
  have run: "generate_report (sample_env always_sent)
       \<lparr>total = 0, success = 0, failed = 0, failed_recipients = []\<rparr> None [] =
     (Inr (), [Print (join_lines
                 [CHR 0x0A # replicate 50 (CHR ''=''), ''EMAIL SEND REPORT'',
                  replicate 50 (CHR ''=''), ''Total Recipients: 0'', ''Successfully Sent: 0'',
                  ''Failed: 0'', ''Success Rate: 0.0%''])])"
    by code_simp
  have f: "format_1f (200 / 3) = ''66.7''"
    by code_simp
  define S where
    "S = \<lparr>total = 3, success = 2, failed = 1, failed_recipients = [Some ''a@x.com'']\<rparr>"
  from generate_report_success_rate [of "sample_env always_sent" S None "[]"]
  obtain ls rate where ls: "report_lines (sample_env always_sent) S = Inr ls"
    and rate: "rate = (if 0 < total S
                then float_round (sample_env always_sent)
                       (float_round (sample_env always_sent)
                          (of_int (success S) / of_int (total S)) * 100)
                else 0)"
    and l6: "ls ! 6 = ''Success Rate: '' @ format_1f rate @ ''%''"
    by blast
  from rate have "rate = 200 / 3" by (simp add: sample_env_def S_def)
  with l6 f have "ls ! 6 = ''Success Rate: 66.7%''" by simp
  with ls have "\<exists>ls. report_lines (sample_env always_sent)
               \<lparr>total = 3, success = 2, failed = 1, failed_recipients = [Some ''a@x.com'']\<rparr>
             = Inr ls \<and> ls ! 6 = ''Success Rate: 66.7%''"
    unfolding S_def by blast
  with run show ?thesis by simp
qed

end
